theory Spec2Isabelle
  imports Complex_Main "HOL-Library.AList"
begin

section \<open>Common conventions\<close>

text \<open>
  The backend is a set of polling services written in Python.  Each service method is
  embedded as a function that takes the answers of the outside world (exchange, chain,
  clock) as an explicit environment record, takes the service object's fields as a state
  record, and returns the list of outgoing gateway calls it made, in order, together with
  the updated state.  A gateway method that catches its own exceptions and returns
  \<open>None\<close> is an \<open>option\<close>; a gateway method that may raise is a \<open>read\<close> with the
  constructor \<open>Raised\<close>.

  A Python \<open>float\<close> is embedded as the real number it denotes, and every arithmetic
  operation on floats rounds its exact result to the nearest double (see the section on
  double-precision arithmetic).
\<close>

datatype 'a read = Raised | Returned 'a

text \<open>Outgoing calls to the two gateways, as the services issue them.\<close>

datatype call =
    InvokeContract string "int list"
  | SendUsdcToVault real
  | DepositToExtended real
  | OpenShortPosition string real
  | ClosePosition string "real option"
  | WithdrawFromExtended real
  | SaveState real real real

section \<open>Double-precision arithmetic\<close>

text \<open>
  Python computes on IEEE 754 binary64 numbers: 53 significant bits, rounding to the
  nearest representable number, ties to the even significand.  \<open>double x\<close> is the
  double nearest to the real \<open>x\<close>: the magnitude is scaled by a power of two into the
  range from \<open>2^52\<close> up to \<open>2^53\<close>, rounded to an integer there and scaled back.  At
  most 1074 doublings are made, so that below \<open>2^-1022\<close> the spacing stays \<open>2^-1074\<close>,
  as for subnormal doubles.  Results whose magnitude reaches \<open>2^1024\<close>, which Python
  turns into an infinity, are outside the embedding.
\<close>

definition round_half_even :: "real \<Rightarrow> int" where
  "round_half_even x =
     (let f = \<lfloor>x\<rfloor>; d = x - of_int f
      in if d < 1 / 2 then f else if 1 / 2 < d then f + 1
         else if even f then f else f + 1)"

fun scale_up :: "nat \<Rightarrow> real \<Rightarrow> real \<Rightarrow> real \<times> real" where
  "scale_up 0 x p = (x, p)"
| "scale_up (Suc n) x p =
     (if x < 4503599627370496 then scale_up n (2 * x) (2 * p) else (x, p))"

fun scale_down :: "nat \<Rightarrow> real \<Rightarrow> real \<Rightarrow> real \<times> real" where
  "scale_down 0 x p = (x, p)"
| "scale_down (Suc n) x p =
     (if 9007199254740992 \<le> x then scale_down n (x / 2) (2 * p) else (x, p))"

definition round_pos :: "real \<Rightarrow> real" where
  "round_pos x =
     (if x < 4503599627370496
      then (case scale_up 1074 x 1 of (m, p) \<Rightarrow> of_int (round_half_even m) / p)
      else (case scale_down 971 x 1 of (m, p) \<Rightarrow> of_int (round_half_even m) * p))"

definition double :: "real \<Rightarrow> real" where
  "double x = (if x = 0 then 0 else if 0 < x then round_pos x else - round_pos (- x))"

text \<open>
  The float operations \<open>+\<close>, \<open>-\<close>, \<open>*\<close> and \<open>/\<close>.  Comparison, \<open>abs\<close>, \<open>min\<close>, \<open>max\<close>
  and unary minus are exact on doubles.  A float literal such as \<open>0.1\<close> is
  \<open>double (1 / 10)\<close>; \<open>float(n)\<close> of an integer is \<open>double (of_int n)\<close>.  Division is
  used only where the source has a non-zero divisor or the embedding tests for zero
  first.
\<close>

definition fadd :: "real \<Rightarrow> real \<Rightarrow> real" where
  "fadd x y = double (x + y)"

definition fsub :: "real \<Rightarrow> real \<Rightarrow> real" where
  "fsub x y = double (x - y)"

definition fmul :: "real \<Rightarrow> real \<Rightarrow> real" where
  "fmul x y = double (x * y)"

definition fdiv :: "real \<Rightarrow> real \<Rightarrow> real" where
  "fdiv x y = double (x / y)"

text \<open>\<open>int(x)\<close> on a float truncates towards zero.\<close>

definition py_int :: "real \<Rightarrow> int" where
  "py_int x = (if 0 \<le> x then \<lfloor>x\<rfloor> else \<lceil>x\<rceil>)"

text \<open>\<open>int(amount * 1e6)\<close>: the float product, truncated.\<close>

definition to_raw6 :: "real \<Rightarrow> int" where
  "to_raw6 x = py_int (fmul x 1000000)"

section \<open>Gateway data\<close>

text \<open>The exchange client's dataclasses \<open>Position\<close> and \<open>Balance\<close> (extended_client.py).\<close>

record ext_position =
  pos_id :: int
  pos_market :: string
  pos_side :: string
  pos_leverage :: real
  pos_size :: real
  pos_value :: real
  pos_open_price :: real
  pos_mark_price :: real
  pos_liquidation_price :: real
  pos_unrealised_pnl :: real

record ext_balance =
  bal_balance :: real
  bal_equity :: real
  bal_available_for_trade :: real
  bal_available_for_withdrawal :: real
  bal_unrealised_pnl :: real
  bal_margin_ratio :: real

text \<open>The fields of \<open>Settings\<close> (config.py) that the services read.\<close>

record settings =
  leverage :: real
  market :: string
  funding_threshold_open :: real
  funding_threshold_close :: real

definition default_settings :: settings where
  "default_settings =
     \<lparr>leverage = 2, market = ''BTC-USD'',
      funding_threshold_open = double (1 / 1000000),
      funding_threshold_close = - double (1 / 1000000)\<rparr>"

section \<open>NAV reporter (services/nav_reporter.py)\<close>

record nav_reporter =
  last_update :: "nat option"
  last_nav :: real

text \<open>\<open>NAVReporter.__init__\<close>: no report yet; the limit is 500 bps.\<close>

definition nav_reporter_init :: nav_reporter where
  "nav_reporter_init = \<lparr>last_update = None, last_nav = 0\<rparr>"

definition max_change_bps :: real where
  "max_change_bps = 500"

text \<open>
  What one run of the reporter observes: the transaction hash returned by
  \<open>invoke_contract\<close> (\<open>None\<close> when the invocation failed) and the clock.
\<close>

record nav_env =
  update_nav_result :: "string option"
  nav_now :: nat

text \<open>
  \<open>self.extended.get_account_balance()\<close>: the class \<open>ExtendedClient\<close> defines
  \<open>get_balance\<close> and no attribute \<open>get_account_balance\<close>, and it has no
  \<open>__getattr__\<close>, so the attribute lookup raises \<open>AttributeError\<close> before anything
  is asked of the exchange.
\<close>

definition get_account_balance :: "ext_balance option read" where
  "get_account_balance = Raised"

text \<open>\<open>_get_extended_equity\<close>: the exception is caught and 0 returned.\<close>

definition get_extended_equity :: real where
  "get_extended_equity =
     (case get_account_balance of
        Raised \<Rightarrow> 0
      | Returned None \<Rightarrow> 0
      | Returned (Some b) \<Rightarrow> bal_equity b)"

definition is_safe_update :: "nav_reporter \<Rightarrow> real \<Rightarrow> bool" where
  "is_safe_update st new_nav =
     (if last_nav st \<le> 0 then True
      else fdiv (fmul \<bar>fsub new_nav (last_nav st)\<bar> 10000) (last_nav st) \<le> max_change_bps)"

text \<open>\<open>_update_vault_nav\<close>: the call it issues, and whether it reports success.\<close>

definition update_vault_nav :: "nav_env \<Rightarrow> real \<Rightarrow> call list \<times> bool" where
  "update_vault_nav env nav =
     ([InvokeContract ''update_nav'' [to_raw6 nav]], update_nav_result env \<noteq> None)"


text \<open>\<open>force_update(nav=None)\<close>: calls, reporter afterwards and the boolean returned.\<close>

definition force_update ::
  "nav_env \<Rightarrow> real option \<Rightarrow> nav_reporter \<Rightarrow> call list \<times> nav_reporter \<times> bool" where
  "force_update env nav_arg st =
     (let nav = (case nav_arg of None \<Rightarrow> get_extended_equity | Some v \<Rightarrow> v)
      in if nav \<le> 0 then ([], st, False)
         else (case update_vault_nav env nav of
                 (cs, success) \<Rightarrow>
                   (cs,
                    if success then st\<lparr>last_nav := nav, last_update := Some (nav_now env)\<rparr>
                    else st,
                    success)))"

section \<open>Withdrawal processor (services/withdrawal_processor.py)\<close>

datatype withdrawal_status = PENDING | PROCESSING | READY | COMPLETED | CANCELLED

record withdrawal_queue_item =
  wd_request_id :: nat
  wd_user :: string
  wd_shares :: nat
  wd_min_assets :: nat
  wd_usdc_value :: real
  wd_timestamp :: nat
  wd_status :: withdrawal_status

text \<open>
  The value stored under a request id in \<open>processing_withdrawals\<close>: the dict with the
  keys \<open>user\<close>, \<open>shares\<close>, \<open>usdc_value\<close>, \<open>started_at\<close> and \<open>step\<close>.
\<close>

datatype step = closing_position | waiting_usdc

record processing_entry =
  pe_user :: string
  pe_shares :: nat
  pe_usdc_value :: real
  pe_started_at :: nat
  pe_step :: step

text \<open>
  \<open>processing_withdrawals\<close> is a Python dict.  It is embedded as a list of key-value
  pairs in insertion order: assigning to a key replaces the value in place or appends a
  new pair (\<open>AList.update\<close>), \<open>del\<close> drops the key (\<open>AList.delete\<close>), and iteration
  runs over the list.
\<close>

type_synonym processing_withdrawals = "(nat \<times> processing_entry) list"

definition withdrawal_processor_init :: processing_withdrawals where
  "withdrawal_processor_init = []"

text \<open>
  What one tick of the processor observes.  The answers are indexed by the request id on
  whose behalf the question is asked; a tick asks each question at most once per id.
  \<open>withdraw_result\<close> is the \<open>status\<close> of the dict returned by
  \<open>withdraw_from_extended\<close> (\<open>None\<close> when it returns \<open>None\<close>; \<open>Raised\<close> stands for an
  exception inside the \<open>try\<close> block of \<open>_start_processing\<close> after the entry was
  recorded).
\<close>

record withdrawal_env =
  queue_length :: nat
  pending_withdrawal :: "nat \<Rightarrow> withdrawal_queue_item option"
  preview_redeem :: "nat \<Rightarrow> int list"
  positions :: "nat \<Rightarrow> ext_position list read"
  withdraw_result :: "nat \<Rightarrow> string option read"
  usdc_balance :: "nat \<Rightarrow> real"
  forward_result :: "nat \<Rightarrow> string option"
  mark_ready_result :: "nat \<Rightarrow> string option"
  wd_now :: nat

text \<open>
  An observable step of the processor: the log line that opens \<open>_start_processing\<close> for
  a request, or a gateway call made on behalf of a request.
\<close>

datatype w_event = StartProcessing nat | Gateway nat call

text \<open>\<open>_get_pending_withdrawal\<close>: the item carries the id it was asked for.\<close>

definition get_pending_withdrawal :: "withdrawal_env \<Rightarrow> nat \<Rightarrow> withdrawal_queue_item option" where
  "get_pending_withdrawal env rid =
     map_option (\<lambda>w. w\<lparr>wd_request_id := rid\<rparr>) (pending_withdrawal env rid)"

text \<open>\<open>_calculate_usdc_value\<close>: \<open>float(result[0]) / 1e6 if result else 0\<close>.\<close>

definition calculate_usdc_value :: "withdrawal_env \<Rightarrow> nat \<Rightarrow> real" where
  "calculate_usdc_value env sh =
     (case preview_redeem env sh of
        [] \<Rightarrow> 0
      | r # _ \<Rightarrow> fdiv (double (real_of_int r)) 1000000)"

text \<open>
  \<open>_close_proportional_position\<close>: the close order it places, if any, and its boolean.
  \<open>next((p for p in positions if p.market == settings.market), None)\<close> is \<open>find\<close>.
\<close>

definition close_proportional_position ::
  "settings \<Rightarrow> withdrawal_env \<Rightarrow> nat \<Rightarrow> real \<Rightarrow> call list \<times> bool" where
  "close_proportional_position cfg env rid usdc_amount =
     (case positions env rid of
        Raised \<Rightarrow> ([], False)
      | Returned ps \<Rightarrow>
          (if ps = [] then ([], True)
           else (case find (\<lambda>p. pos_market p = market cfg) ps of
                   None \<Rightarrow> ([], True)
                 | Some btc_position \<Rightarrow>
                     (let close_size = fmul usdc_amount (leverage cfg)
                      in if \<bar>pos_size btc_position\<bar> > close_size
                         then ([ClosePosition (market cfg) (Some close_size)], True)
                         else ([ClosePosition (market cfg) None], True)))))"

definition start_processing ::
  "settings \<Rightarrow> withdrawal_env \<Rightarrow> withdrawal_queue_item \<Rightarrow> processing_withdrawals
     \<Rightarrow> w_event list \<times> processing_withdrawals" where
  "start_processing cfg env withdrawal pw =
     (let rid = wd_request_id withdrawal;
          usdc_value = calculate_usdc_value env (wd_shares withdrawal)
      in if usdc_value \<le> 0 then ([StartProcessing rid], pw)
         else
           (let extended_usdc = fdiv usdc_value 2;
                entry = \<lparr>pe_user = wd_user withdrawal, pe_shares = wd_shares withdrawal,
                         pe_usdc_value = extended_usdc, pe_started_at = wd_now env,
                         pe_step = closing_position\<rparr>;
                pw1 = AList.update rid entry pw;
                closing = close_proportional_position cfg env rid extended_usdc;
                evs = StartProcessing rid # map (Gateway rid) (fst closing)
                        @ [Gateway rid (WithdrawFromExtended extended_usdc)]
            in case withdraw_result env rid of
                 Returned (Some _) \<Rightarrow>
                   (evs, AList.update rid (entry\<lparr>pe_step := waiting_usdc\<rparr>) pw1)
               | Returned None \<Rightarrow> (evs, AList.delete rid pw1)
               | Raised \<Rightarrow> (evs, AList.delete rid pw1)))"

text \<open>The body of the \<open>for request_id in range(queue_length)\<close> loop, over the ids left.\<close>

fun scan_withdrawals ::
  "settings \<Rightarrow> withdrawal_env \<Rightarrow> nat list \<Rightarrow> processing_withdrawals
     \<Rightarrow> w_event list \<times> processing_withdrawals" where
  "scan_withdrawals cfg env [] pw = ([], pw)"
| "scan_withdrawals cfg env (request_id # rest) pw =
     (case get_pending_withdrawal env request_id of
        None \<Rightarrow> scan_withdrawals cfg env rest pw
      | Some withdrawal \<Rightarrow>
          (if wd_status withdrawal = PENDING then
             (if request_id \<notin> fst ` set pw then
                (case start_processing cfg env withdrawal pw of
                   (evs, pw1) \<Rightarrow>
                     (case scan_withdrawals cfg env rest pw1 of
                        (evs2, pw2) \<Rightarrow> (evs @ evs2, pw2)))
              else scan_withdrawals cfg env rest pw)
           else scan_withdrawals cfg env rest pw))"

definition process_pending_withdrawals ::
  "settings \<Rightarrow> withdrawal_env \<Rightarrow> processing_withdrawals
     \<Rightarrow> w_event list \<times> processing_withdrawals" where
  "process_pending_withdrawals cfg env pw =
     (if queue_length env = 0 then ([], pw)
      else scan_withdrawals cfg env [0 ..< queue_length env] pw)"

text \<open>\<open>_complete_processing\<close>: forward, then mark ready; the boolean it returns.\<close>

definition complete_processing ::
  "withdrawal_env \<Rightarrow> nat \<Rightarrow> processing_entry \<Rightarrow> w_event list \<times> bool" where
  "complete_processing env request_id data =
     (case forward_result env request_id of
        None \<Rightarrow> ([Gateway request_id (SendUsdcToVault (pe_usdc_value data))], False)
      | Some _ \<Rightarrow>
          ([Gateway request_id (SendUsdcToVault (pe_usdc_value data)),
            Gateway request_id
              (InvokeContract ''mark_withdrawal_ready''
                 [int request_id, to_raw6 (pe_usdc_value data)])],
           mark_ready_result env request_id \<noteq> None))"

text \<open>
  The loop of \<open>_check_processing_withdrawals\<close> over the items of the dict: the events, and
  the list \<open>completed\<close>.
\<close>

fun check_entries :: "withdrawal_env \<Rightarrow> processing_withdrawals \<Rightarrow> w_event list \<times> nat list" where
  "check_entries env [] = ([], [])"
| "check_entries env ((request_id, data) # rest) =
     (case (if pe_step data = waiting_usdc \<and> usdc_balance env request_id \<ge> pe_usdc_value data
            then complete_processing env request_id data
            else ([], False)) of
        (evs, success) \<Rightarrow>
          (case check_entries env rest of
             (evs2, completed) \<Rightarrow>
               (evs @ evs2, if success then request_id # completed else completed)))"

text \<open>
  The condition under which \<open>_check_processing_withdrawals\<close> puts a request on its
  \<open>completed\<close> list: the entry waits for the settlement asset, the wallet balance read
  for it covers its amount, and both the transfer to the vault and the invocation of
  \<open>mark_withdrawal_ready\<close> succeed.
\<close>

definition completes :: "withdrawal_env \<Rightarrow> nat \<Rightarrow> processing_entry \<Rightarrow> bool" where
  "completes env request_id data \<longleftrightarrow>
     pe_step data = waiting_usdc \<and> usdc_balance env request_id \<ge> pe_usdc_value data
     \<and> forward_result env request_id \<noteq> None \<and> mark_ready_result env request_id \<noteq> None"

definition check_processing_withdrawals ::
  "withdrawal_env \<Rightarrow> processing_withdrawals \<Rightarrow> w_event list \<times> processing_withdrawals" where
  "check_processing_withdrawals env pw =
     (case check_entries env pw of
        (evs, completed) \<Rightarrow> (evs, fold AList.delete completed pw))"

text \<open>One iteration of the loop in \<open>start\<close>, and a run of iterations.\<close>

definition withdrawal_tick ::
  "settings \<Rightarrow> withdrawal_env \<Rightarrow> processing_withdrawals
     \<Rightarrow> w_event list \<times> processing_withdrawals" where
  "withdrawal_tick cfg env pw =
     (case process_pending_withdrawals cfg env pw of
        (evs, pw1) \<Rightarrow>
          (case check_processing_withdrawals env pw1 of
             (evs2, pw2) \<Rightarrow> (evs @ evs2, pw2)))"

fun withdrawal_ticks ::
  "settings \<Rightarrow> withdrawal_env list \<Rightarrow> processing_withdrawals \<Rightarrow> processing_withdrawals" where
  "withdrawal_ticks cfg [] pw = pw"
| "withdrawal_ticks cfg (env # envs) pw =
     withdrawal_ticks cfg envs (snd (withdrawal_tick cfg env pw))"

text \<open>How often \<open>_start_processing\<close> was entered for a request in a trace.\<close>

definition starts_of :: "nat \<Rightarrow> w_event list \<Rightarrow> nat" where
  "starts_of rid evs = length (filter (\<lambda>e. e = StartProcessing rid) evs)"

section \<open>Deposit processor (services/deposit_processor.py)\<close>

record deposit_queue_item =
  dq_request_id :: nat
  dq_user :: string
  dq_receiver :: string
  dq_usdc_amount :: real
  dq_min_shares :: nat
  dq_timestamp :: nat
  dq_processed :: bool

text \<open>
  What one scan observes, indexed by the request id the question is asked for:
  the parsed queue slot (\<open>None\<close> when the read failed) and the transaction hash of
  \<open>process_deposits\<close> (\<open>None\<close> when the invocation failed).  The operator balance and
  the results of the exchange deposit and of the short order only choose between log
  lines, so they are not part of the record.
\<close>

record deposit_env =
  pending_deposit_read :: "nat \<Rightarrow> deposit_queue_item option"
  process_deposits_result :: "nat \<Rightarrow> string option"

definition MAX_DEPOSITS :: nat where
  "MAX_DEPOSITS = 100"

definition get_pending_deposit :: "deposit_env \<Rightarrow> nat \<Rightarrow> deposit_queue_item option" where
  "get_pending_deposit env rid =
     map_option (\<lambda>d. d\<lparr>dq_request_id := rid\<rparr>) (pending_deposit_read env rid)"

text \<open>
  \<open>_process_single_deposit\<close>: the gateway calls, each tagged with the id of the deposit
  it was made for, and the boolean returned.
\<close>

definition process_single_deposit ::
  "settings \<Rightarrow> deposit_env \<Rightarrow> deposit_queue_item \<Rightarrow> (nat \<times> call) list \<times> bool" where
  "process_single_deposit cfg env deposit =
     (let rid = dq_request_id deposit
      in case process_deposits_result env rid of
           None \<Rightarrow> ([(rid, InvokeContract ''process_deposits'' [1])], False)
         | Some _ \<Rightarrow>
             (let actual_usdc = fdiv (dq_usdc_amount deposit) 2
              in ([(rid, InvokeContract ''process_deposits'' [1]),
                   (rid, DepositToExtended actual_usdc),
                   (rid, OpenShortPosition (market cfg) (fmul actual_usdc (leverage cfg)))],
                  True)))"

text \<open>
  The body of \<open>for request_id in range(MAX_DEPOSITS)\<close> over the ids left: \<open>continue\<close>
  goes on with the rest, \<open>break\<close> ends the scan.
\<close>

fun scan_deposits :: "settings \<Rightarrow> deposit_env \<Rightarrow> nat list \<Rightarrow> (nat \<times> call) list" where
  "scan_deposits cfg env [] = []"
| "scan_deposits cfg env (request_id # rest) =
     (case get_pending_deposit env request_id of
        None \<Rightarrow> scan_deposits cfg env rest
      | Some deposit \<Rightarrow>
          (if dq_user deposit = ''0x0'' then []
           else if dq_processed deposit then scan_deposits cfg env rest
           else if dq_usdc_amount deposit \<le> double (1 / 100) then scan_deposits cfg env rest
           else fst (process_single_deposit cfg env deposit) @ scan_deposits cfg env rest))"

definition process_pending_deposits :: "settings \<Rightarrow> deposit_env \<Rightarrow> (nat \<times> call) list" where
  "process_pending_deposits cfg env = scan_deposits cfg env [0 ..< MAX_DEPOSITS]"

text \<open>The mint invocations of a trace that were made for a given deposit.\<close>

definition mints_for :: "nat \<Rightarrow> (nat \<times> call) list \<Rightarrow> nat" where
  "mints_for rid tr =
     length (filter (\<lambda>e. e = (rid, InvokeContract ''process_deposits'' [1])) tr)"

section \<open>Position manager (services/position_manager.py)\<close>

record position_manager =
  last_rebalance :: "nat option"
  position_closed_due_to_funding :: bool

definition position_manager_init :: position_manager where
  "position_manager_init = \<lparr>last_rebalance = None, position_closed_due_to_funding = False\<rparr>"

definition rebalance_threshold :: real where
  "rebalance_threshold = double (5 / 100)"

definition negative_funding_threshold :: real where
  "negative_funding_threshold = - double (1 / 10000)"

text \<open>\<open>_close_all_positions\<close>: one close order for the whole market.\<close>

definition close_all_positions :: "settings \<Rightarrow> call list" where
  "close_all_positions cfg = [ClosePosition (market cfg) None]"

text \<open>
  \<open>_check_funding_rate\<close> on the outcome of \<open>get_funding_rate\<close>, which raises when the
  exchange request fails.
\<close>

definition check_funding_rate ::
  "settings \<Rightarrow> real read \<Rightarrow> position_manager \<Rightarrow> call list \<times> position_manager" where
  "check_funding_rate cfg funding st =
     (case funding of
        Raised \<Rightarrow> ([], st)
      | Returned funding_rate \<Rightarrow>
          (if funding_rate < negative_funding_threshold then
             (if \<not> position_closed_due_to_funding st
              then (close_all_positions cfg, st\<lparr>position_closed_due_to_funding := True\<rparr>)
              else ([], st))
           else
             (if position_closed_due_to_funding st
              then ([], st\<lparr>position_closed_due_to_funding := False\<rparr>)
              else ([], st))))"

section \<open>Strategy (strategy.py)\<close>

record strategy_state =
  funding_rate :: real
  has_position :: bool
  position_size :: real
  position_value :: real
  unrealized_pnl :: real
  balance :: real
  equity :: real
  estimated_apy :: real
  wbtc_held :: real
  wbtc_value_usd :: real
  total_nav :: real
  delta :: real

text \<open>
  What one strategy pass observes, in the order it asks: funding rate, short position,
  balance, mark price and vault holdings for \<open>get_state\<close>; then, on the decrease path
  only, the mark price once more; and the \<open>status\<close> of the order result (\<open>None\<close> when
  the order call returned \<open>None\<close>).
\<close>

record strategy_env =
  rd_funding_rate :: "real read"
  rd_short_position :: "ext_position option read"
  rd_balance :: "ext_balance option"
  rd_mark_price :: "real read"
  rd_vault_wbtc_held :: real
  rd_mark_price_again :: "real read"
  rd_order_status :: "string option"

definition calculate_apy :: "settings \<Rightarrow> real \<Rightarrow> real" where
  "calculate_apy cfg fr = fmul (fmul (fmul (fmul fr 24) 365) (leverage cfg)) 100"

definition get_state :: "settings \<Rightarrow> strategy_env \<Rightarrow> strategy_state read" where
  "get_state cfg env =
     (case rd_funding_rate env of
        Raised \<Rightarrow> Raised
      | Returned fr \<Rightarrow>
     (case rd_short_position env of
        Raised \<Rightarrow> Raised
      | Returned position \<Rightarrow>
     (case rd_mark_price env of
        Raised \<Rightarrow> Raised
      | Returned btc_price \<Rightarrow>
          (let bal = rd_balance env;
               held = rd_vault_wbtc_held env;
               value_usd = fmul held btc_price;
               extended_equity = (case bal of None \<Rightarrow> 0 | Some b \<Rightarrow> bal_equity b);
               nav = fadd value_usd extended_equity;
               long_exposure = value_usd;
               short_exposure = (case position of None \<Rightarrow> 0 | Some p \<Rightarrow> pos_value p);
               d = (if nav > 0 then fdiv (fsub long_exposure short_exposure) nav else 0)
           in Returned
                \<lparr>funding_rate = fr,
                 has_position = (position \<noteq> None),
                 position_size = (case position of None \<Rightarrow> 0 | Some p \<Rightarrow> pos_size p),
                 position_value = (case position of None \<Rightarrow> 0 | Some p \<Rightarrow> pos_value p),
                 unrealized_pnl = (case position of None \<Rightarrow> 0 | Some p \<Rightarrow> pos_unrealised_pnl p),
                 balance = (case bal of None \<Rightarrow> 0 | Some b \<Rightarrow> bal_balance b),
                 equity = extended_equity,
                 estimated_apy = calculate_apy cfg fr,
                 wbtc_held = held,
                 wbtc_value_usd = value_usd,
                 total_nav = nav,
                 delta = d\<rparr>))))"

definition should_open_position :: "settings \<Rightarrow> real \<Rightarrow> bool \<Rightarrow> bool" where
  "should_open_position cfg fr has_pos =
     (if has_pos then False else fr > funding_threshold_open cfg)"

definition should_close_position :: "settings \<Rightarrow> real \<Rightarrow> bool \<Rightarrow> bool" where
  "should_close_position cfg fr has_pos =
     (if \<not> has_pos then False else fr < funding_threshold_close cfg)"

definition calculate_position_size :: "settings \<Rightarrow> real \<Rightarrow> real" where
  "calculate_position_size cfg available_balance =
     fmul (fmul available_balance (double (9 / 10))) (leverage cfg)"

text \<open>
  The dict returned by \<open>execute_strategy\<close>: its \<open>action\<close> with the amounts that go with
  it, and its \<open>status\<close>.
\<close>

datatype action =
    REBALANCE_SHORT_UP real
  | REBALANCE_SHORT_DOWN real real
  | OPEN_SHORT real
  | CLOSE_POSITION
  | HOLD

definition DELTA_THRESHOLD :: real where
  "DELTA_THRESHOLD = double (5 / 100)"

text \<open>
  The two quantities of the rebalancing test: \<open>state.wbtc_value_usd -
  state.position_value\<close>, and the condition of the outer \<open>if\<close>.
\<close>

definition adjustment :: "strategy_state \<Rightarrow> real" where
  "adjustment state = fsub (wbtc_value_usd state) (position_value state)"

definition outside_band :: "strategy_state \<Rightarrow> bool" where
  "outside_band state \<longleftrightarrow> \<bar>delta state\<bar> > DELTA_THRESHOLD \<and> wbtc_value_usd state > 0"

text \<open>The size of the order of step 2 of \<open>execute_strategy\<close>.\<close>

definition open_size :: "settings \<Rightarrow> strategy_state \<Rightarrow> real" where
  "open_size cfg state =
     (if wbtc_value_usd state > 0 then wbtc_value_usd state
      else calculate_position_size cfg (equity state))"

definition order_status :: "strategy_env \<Rightarrow> string" where
  "order_status env = (case rd_order_status env of None \<Rightarrow> ''FAILED'' | Some s \<Rightarrow> s)"

text \<open>
  \<open>execute_strategy\<close> from the state just read.  \<open>Raised\<close>: the second mark-price read
  raised, or \<open>abs(adjustment) / btc_price\<close> divided by zero.
\<close>

definition execute_from_state ::
  "settings \<Rightarrow> strategy_env \<Rightarrow> strategy_state \<Rightarrow> (call list \<times> action \<times> string option) read" where
  "execute_from_state cfg env state =
     (if outside_band state \<and> adjustment state > 10 then
        Returned ([OpenShortPosition (market cfg) (adjustment state)],
                  REBALANCE_SHORT_UP (adjustment state), Some (order_status env))
      else if outside_band state \<and> adjustment state < - 10 then
        (case rd_mark_price_again env of
           Raised \<Rightarrow> Raised
         | Returned btc_price \<Rightarrow>
             (if btc_price = 0 then Raised
              else
                (let btc_to_close = fdiv \<bar>adjustment state\<bar> btc_price
                 in Returned ([ClosePosition (market cfg) (Some btc_to_close)],
                              REBALANCE_SHORT_DOWN (adjustment state) btc_to_close,
                              Some (order_status env)))))
      else if should_open_position cfg (funding_rate state) (has_position state) then
        Returned ([OpenShortPosition (market cfg) (open_size cfg state)],
                  OPEN_SHORT (open_size cfg state), Some (order_status env))
      else if should_close_position cfg (funding_rate state) (has_position state) then
        Returned ([ClosePosition (market cfg) None], CLOSE_POSITION, Some (order_status env))
      else Returned ([], HOLD, None))"

definition execute_strategy ::
  "settings \<Rightarrow> strategy_env \<Rightarrow> (call list \<times> action \<times> string option) read" where
  "execute_strategy cfg env =
     (case get_state cfg env of
        Raised \<Rightarrow> Raised
      | Returned state \<Rightarrow> execute_from_state cfg env state)"

text \<open>Whether a pass ended in one of the two rebalancing actions.\<close>

fun is_rebalance :: "(call list \<times> action \<times> string option) read \<Rightarrow> bool" where
  "is_rebalance (Returned (_, REBALANCE_SHORT_UP _, _)) = True"
| "is_rebalance (Returned (_, REBALANCE_SHORT_DOWN _ _, _)) = True"
| "is_rebalance _ = False"

section \<open>Vault monitor (starknet_client.py)\<close>

record vault_monitor =
  last_balance :: real
  pending_deposit :: real
  pending_withdrawal_amount :: real


text \<open>\<open>_save_state\<close> writes the three fields to the persistence file.\<close>

definition save_state :: "vault_monitor \<Rightarrow> call" where
  "save_state m = SaveState (pending_deposit m) (pending_withdrawal_amount m) (last_balance m)"


text \<open>
  What one balance check observes: the wallet balance, and the transaction hashes of the
  two possible transfers to the vault (\<open>None\<close> when a transfer failed).
\<close>

record monitor_env =
  current_balance :: real
  forward_available_result :: "string option"
  forward_match_result :: "string option"

text \<open>The second half of \<open>check_for_balance_changes\<close>, from \<open>if current_balance > self.last_balance\<close> on.\<close>

definition classify_increase :: "monitor_env \<Rightarrow> vault_monitor \<Rightarrow> call list \<times> vault_monitor \<times> real" where
  "classify_increase env m =
     (let cur = current_balance env
      in if cur > last_balance m then
           (let increase = fsub cur (last_balance m);
                matching = (pending_withdrawal_amount m > 0);
                withdrawal_match = min increase (pending_withdrawal_amount m);
                forwarded = (matching \<and> forward_match_result env \<noteq> None);
                cs = (if matching then [SendUsdcToVault withdrawal_match] else []);
                m1 = (if forwarded
                      then m\<lparr>pending_withdrawal_amount :=
                                fsub (pending_withdrawal_amount m) withdrawal_match\<rparr>
                      else m);
                increase1 = (if forwarded then fsub increase withdrawal_match else increase);
                m2 = (if increase1 > double (1 / 10)
                      then m1\<lparr>pending_deposit := fadd (pending_deposit m1) increase1\<rparr>
                      else m1);
                m3 = m2\<lparr>last_balance := cur\<rparr>
            in (cs @ [save_state m3], m3, increase1))
         else ([], m\<lparr>last_balance := cur\<rparr>, 0))"

text \<open>\<open>check_for_balance_changes\<close>: calls, monitor afterwards and the amount returned.\<close>

definition check_for_balance_changes ::
  "monitor_env \<Rightarrow> vault_monitor \<Rightarrow> call list \<times> vault_monitor \<times> real" where
  "check_for_balance_changes env m =
     (let cur = current_balance env
      in if pending_withdrawal_amount m > 0 \<and> cur > double (1 / 10) then
           (let amount_to_forward = min cur (pending_withdrawal_amount m)
            in if forward_available_result env \<noteq> None then
                 (let m1 = m\<lparr>pending_withdrawal_amount :=
                               fsub (pending_withdrawal_amount m) amount_to_forward,
                             last_balance := max 0 (fsub cur amount_to_forward)\<rparr>
                  in ([SendUsdcToVault amount_to_forward, save_state m1], m1, amount_to_forward))
               else
                 (case classify_increase env m of
                    (cs, r) \<Rightarrow> (SendUsdcToVault amount_to_forward # cs, r)))
         else classify_increase env m)"





section \<open>Concrete inputs\<close>

text \<open>
  A chain that accepts the NAV invocation, and a reporter that was forced to 1,000,000
  from its initial state.
\<close>

definition nav_env_ok :: nav_env where
  "nav_env_ok = \<lparr>update_nav_result = Some ''0x1'', nav_now = 7\<rparr>"

definition reporter_forced :: nav_reporter where
  "reporter_forced = fst (snd (force_update nav_env_ok (Some 1000000) nav_reporter_init))"

text \<open>
  The withdrawal scenario: the queue has three slots, request 2 is PENDING with a
  settlement value of 500.00 and a preview valuation of 500.00, the other two slots are
  COMPLETED; the exchange accepts the withdrawal request; the operator wallet holds the
  given balance; forwarding and marking ready succeed.
\<close>

definition scenario_withdrawal :: "withdrawal_status \<Rightarrow> withdrawal_queue_item" where
  "scenario_withdrawal s =
     \<lparr>wd_request_id = 2, wd_user = ''0xa'', wd_shares = 400000000, wd_min_assets = 0,
      wd_usdc_value = 500, wd_timestamp = 1, wd_status = s\<rparr>"

definition scenario_withdrawal_env :: "real \<Rightarrow> withdrawal_env" where
  "scenario_withdrawal_env b =
     \<lparr>queue_length = 3,
      pending_withdrawal =
        (\<lambda>rid. if rid = 2 then Some (scenario_withdrawal PENDING)
              else Some (scenario_withdrawal COMPLETED)),
      preview_redeem = (\<lambda>sh. [500000000]),
      positions = (\<lambda>rid. Returned []),
      withdraw_result = (\<lambda>rid. Returned (Some ''success'')),
      usdc_balance = (\<lambda>rid. b),
      forward_result = (\<lambda>rid. Some ''0x2''),
      mark_ready_result = (\<lambda>rid. Some ''0x3''),
      wd_now = 10\<rparr>"

text \<open>The entry of request 2 once the exchange withdrawal has been requested.\<close>

definition scenario_entry :: processing_entry where
  "scenario_entry =
     \<lparr>pe_user = ''0xa'', pe_shares = 400000000, pe_usdc_value = 250, pe_started_at = 10,
      pe_step = waiting_usdc\<rparr>"

text \<open>The same scenario with 250.00 in the wallet and a transfer to the vault that fails.\<close>

definition scenario_forward_fails :: withdrawal_env where
  "scenario_forward_fails = (scenario_withdrawal_env 250)\<lparr>forward_result := (\<lambda>rid. None)\<rparr>"

text \<open>
  Two more variants with an empty wallet: the exchange client returns nothing for the
  withdrawal request; and the preview valuation cannot be read.
\<close>

definition scenario_withdraw_rejected :: withdrawal_env where
  "scenario_withdraw_rejected =
     (scenario_withdrawal_env 0)\<lparr>withdraw_result := (\<lambda>rid. Returned None)\<rparr>"

definition scenario_preview_fails :: withdrawal_env where
  "scenario_preview_fails = (scenario_withdrawal_env 0)\<lparr>preview_redeem := (\<lambda>sh. [])\<rparr>"

text \<open>
  The scenario with a preview valuation of 4.02 (4020000 at six decimals) and 3.00 in
  the wallet.
\<close>

definition scenario_truncation :: withdrawal_env where
  "scenario_truncation = (scenario_withdrawal_env 3)\<lparr>preview_redeem := (\<lambda>sh. [4020000])\<rparr>"

text \<open>
  The deposit scenario: slot 0 holds a deposit of 1000.00 by \<open>0xa\<close>, with the given
  processed flag, slot 1 and all later slots read back with the zero user; the mint
  invocation succeeds.
\<close>

definition scenario_deposit :: "bool \<Rightarrow> deposit_queue_item" where
  "scenario_deposit p =
     \<lparr>dq_request_id = 0, dq_user = ''0xa'', dq_receiver = ''0xa'', dq_usdc_amount = 1000,
      dq_min_shares = 0, dq_timestamp = 1, dq_processed = p\<rparr>"

definition scenario_deposit_env :: "bool \<Rightarrow> deposit_env" where
  "scenario_deposit_env p =
     \<lparr>pending_deposit_read =
        (\<lambda>rid. if rid = 0 then Some (scenario_deposit p)
              else Some ((scenario_deposit False)\<lparr>dq_user := ''0x0'', dq_usdc_amount := 0\<rparr>)),
      process_deposits_result = (\<lambda>rid. Some ''0x4'')\<rparr>"

text \<open>A position manager whose funding latch is set, and one whose latch is clear.\<close>

definition manager_latched :: position_manager where
  "manager_latched = \<lparr>last_rebalance = None, position_closed_due_to_funding = True\<rparr>"

text \<open>A balance check that reads the given wallet balance and whose transfers succeed.\<close>

definition monitor_env_of :: "real \<Rightarrow> monitor_env" where
  "monitor_env_of b =
     \<lparr>current_balance = b, forward_available_result = Some ''0x5'',
      forward_match_result = Some ''0x6''\<rparr>"


text \<open>A monitor that has recorded a balance of 100.00 and holds 5.00 as pending deposit.\<close>

definition monitor_idle :: vault_monitor where
  "monitor_idle = \<lparr>last_balance = 100, pending_deposit = 5, pending_withdrawal_amount = 0\<rparr>"

text \<open>
  Strategy passes at a mark price of 102,400 and a funding rate of 1/8192 per hour, with
  the given vault holdings, short position and exchange equity; the order succeeds.
  The rebalancing scenario holds 1/1024 of the risk asset (a value of 100) against a
  short of notional 80 and an equity of 80.  The net-short variant has a short of
  notional 130 and an equity of 100.  The variant without a position holds 1/16384 of
  the risk asset (a value of 6.25) and an equity of 100.
\<close>

definition scenario_short :: "real \<Rightarrow> ext_position" where
  "scenario_short v =
     \<lparr>pos_id = 1, pos_market = ''BTC-USD'', pos_side = ''SHORT'', pos_leverage = 2,
      pos_size = 1 / 1024, pos_value = v, pos_open_price = 102400, pos_mark_price = 102400,
      pos_liquidation_price = 153600, pos_unrealised_pnl = 0\<rparr>"

definition strategy_env_of :: "real \<Rightarrow> ext_position option \<Rightarrow> real \<Rightarrow> strategy_env" where
  "strategy_env_of held position eq =
     \<lparr>rd_funding_rate = Returned (1 / 8192),
      rd_short_position = Returned position,
      rd_balance = Some \<lparr>bal_balance = eq, bal_equity = eq, bal_available_for_trade = eq,
                         bal_available_for_withdrawal = eq, bal_unrealised_pnl = 0,
                         bal_margin_ratio = 0\<rparr>,
      rd_mark_price = Returned 102400,
      rd_vault_wbtc_held = held,
      rd_mark_price_again = Returned 102400,
      rd_order_status = Some ''success''\<rparr>"

definition scenario_strategy_env :: strategy_env where
  "scenario_strategy_env = strategy_env_of (1 / 1024) (Some (scenario_short 80)) 80"

definition net_short_env :: strategy_env where
  "net_short_env = strategy_env_of (1 / 1024) (Some (scenario_short 130)) 100"

definition no_position_env :: strategy_env where
  "no_position_env = strategy_env_of (1 / 16384) None 100"

text \<open>The net-short variant in which the second read of the mark price raises.\<close>

definition net_short_price_fails_env :: strategy_env where
  "net_short_price_fails_env = net_short_env\<lparr>rd_mark_price_again := Raised\<rparr>"

text \<open>The states that \<open>get_state\<close> reads in these three passes.\<close>

definition scenario_state :: strategy_state where
  "scenario_state =
     \<lparr>funding_rate = 1 / 8192, has_position = True, position_size = 1 / 1024,
      position_value = 80, unrealized_pnl = 0, balance = 80, equity = 80,
      estimated_apy = 27375 / 128, wbtc_held = 1 / 1024, wbtc_value_usd = 100,
      total_nav = 180, delta = 2001599834386887 / 18014398509481984\<rparr>"

definition net_short_state :: strategy_state where
  "net_short_state =
     \<lparr>funding_rate = 1 / 8192, has_position = True, position_size = 1 / 1024,
      position_value = 130, unrealized_pnl = 0, balance = 100, equity = 100,
      estimated_apy = 27375 / 128, wbtc_held = 1 / 1024, wbtc_value_usd = 100,
      total_nav = 200, delta = - (5404319552844595 / 36028797018963968)\<rparr>"

definition no_position_state :: strategy_state where
  "no_position_state =
     \<lparr>funding_rate = 1 / 8192, has_position = False, position_size = 0,
      position_value = 0, unrealized_pnl = 0, balance = 100, equity = 100,
      estimated_apy = 27375 / 128, wbtc_held = 1 / 16384, wbtc_value_usd = 25 / 4,
      total_nav = 425 / 4, delta = 4238682002231055 / 72057594037927936\<rparr>"

chapter \<open>Properties\<close>

section \<open>Evaluating double-precision arithmetic\<close>

text \<open>
  The scaling functions recurse on a successor; these two equations let the simplifier
  run them on numerals.
\<close>

lemma scale_up_numeral:
  "scale_up (numeral k) x p =
     (if x < 4503599627370496 then scale_up (pred_numeral k) (2 * x) (2 * p) else (x, p))"
  by (simp add: numeral_eq_Suc)

lemma scale_down_numeral:
  "scale_down (numeral k) x p =
     (if 9007199254740992 \<le> x then scale_down (pred_numeral k) (x / 2) (2 * p) else (x, p))"
  by (simp add: numeral_eq_Suc)

lemmas double_eval =
  double_def round_pos_def scale_up_numeral scale_down_numeral round_half_even_def Let_def

lemmas float_eval = fadd_def fsub_def fmul_def fdiv_def double_eval

text \<open>
  Some values, as Python computes them: \<open>0.1 + 0.1 + 0.1\<close> is above three tenths;
  \<open>int(2.01 * 1e6)\<close> is 2009999 and \<open>int(0.29 * 1e6)\<close> is 290000; \<open>0.4 - 0.3\<close> is
  above \<open>0.1\<close>; and the basis-point test of the NAV reporter accepts a change from
  1044105.179821439 to 991899.920830367, whose quotient rounds to 500.0 although the
  exact change is above 500 basis points.
\<close>

lemma three_tenths:
  "fadd (fadd (double (1 / 10)) (double (1 / 10))) (double (1 / 10))
     = 1351079888211149 / 4503599627370496"
  "3 / 10 < fadd (fadd (double (1 / 10)) (double (1 / 10))) (double (1 / 10))"
  by (simp_all add: float_eval)

lemma to_raw6_2_01: "to_raw6 (double (201 / 100)) = 2009999"
  by (simp add: to_raw6_def py_int_def float_eval)

lemma to_raw6_0_29: "to_raw6 (double (29 / 100)) = 290000"
  by (simp add: to_raw6_def py_int_def float_eval)

lemma increase_above_tenth:
  "fsub (double (4 / 10)) (double (3 / 10)) = 1801439850948199 / 18014398509481984"
  "double (1 / 10) < fsub (double (4 / 10)) (double (3 / 10))"
  by (simp_all add: float_eval)

lemma is_safe_update_rounds:
  "is_safe_update \<lparr>last_update = None, last_nav = double (1044105179821439 / 1000000000)\<rparr>
      (double (991899920830367 / 1000000000))"
  "\<bar>double (991899920830367 / 1000000000) - double (1044105179821439 / 1000000000)\<bar> * 10000
      / double (1044105179821439 / 1000000000) > 500"
  by (simp_all add: is_safe_update_def max_change_bps_def float_eval)

section \<open>NAV reporter\<close>


text \<open>The reporter after the first forced update.\<close>

lemma reporter_forced_eq: "reporter_forced = \<lparr>last_update = Some 7, last_nav = 1000000\<rparr>"
  by (simp add: reporter_forced_def force_update_def update_vault_nav_def nav_env_ok_def
        nav_reporter_init_def)

text \<open>
  Claim C4 (the force path respects the rate limit) fails on the code.  A reporter is
  forced to 1,000,000 and then to 1,060,000.  The change is 600 basis points, which the
  test of the scheduled path rejects; \<open>force_update\<close> never applies that test: it
  invokes the on-chain update with 1,060,000 and records it as the last reported NAV.
\<close>

theorem C4_forced_update_ignores_rate_limit:
  "0 < last_nav reporter_forced
   \<and> \<not> is_safe_update reporter_forced 1060000
   \<and> force_update nav_env_ok (Some 1060000) reporter_forced
        = ([InvokeContract ''update_nav'' [1060000000000]],
           \<lparr>last_update = Some 7, last_nav = 1060000\<rparr>, True)"
proof -
  have "fdiv (fmul \<bar>fsub 1060000 1000000\<bar> 10000) 1000000 = 600"
    by (simp add: float_eval)
  then have a: "\<not> is_safe_update reporter_forced 1060000"
    by (simp add: is_safe_update_def reporter_forced_eq max_change_bps_def)
  have "to_raw6 1060000 = 1060000000000"
    by (simp add: to_raw6_def py_int_def float_eval)
  then have b: "force_update nav_env_ok (Some 1060000) reporter_forced
        = ([InvokeContract ''update_nav'' [1060000000000]],
           \<lparr>last_update = Some 7, last_nav = 1060000\<rparr>, True)"
    by (simp add: force_update_def update_vault_nav_def nav_env_ok_def reporter_forced_eq)
  from a b show ?thesis by (simp add: reporter_forced_eq)
qed

section \<open>Withdrawal processor: the processing set\<close>

lemma start_processing_distinct:
  "distinct (map fst pw) \<Longrightarrow> distinct (map fst (snd (start_processing cfg env w pw)))"
  by (auto simp: start_processing_def Let_def distinct_update distinct_delete
           split: read.splits option.splits)

lemma start_processing_other:
  "rid \<noteq> wd_request_id w \<Longrightarrow>
     map_of (snd (start_processing cfg env w pw)) rid = map_of pw rid"
  by (auto simp: start_processing_def Let_def update_conv' delete_conv'
           split: read.splits option.splits)

lemma start_processing_starts:
  "starts_of rid (fst (start_processing cfg env w pw)) = (if rid = wd_request_id w then 1 else 0)"
  by (auto simp: start_processing_def Let_def starts_of_def filter_map comp_def
           split: read.splits option.splits)

lemma starts_of_append [simp]: "starts_of rid (xs @ ys) = starts_of rid xs + starts_of rid ys"
  by (simp add: starts_of_def)

lemma starts_of_Nil [simp]: "starts_of rid [] = 0"
  by (simp add: starts_of_def)

lemma get_pending_withdrawal_id:
  "get_pending_withdrawal env rid = Some w \<Longrightarrow> wd_request_id w = rid"
  by (auto simp: get_pending_withdrawal_def)

lemma keys_map_of: "rid \<in> fst ` set pw \<longleftrightarrow> map_of pw rid \<noteq> None"
  by (simp add: map_of_eq_None_iff)

lemma scan_withdrawals_distinct:
  "distinct (map fst pw) \<Longrightarrow> distinct (map fst (snd (scan_withdrawals cfg env ids pw)))"
proof (induction ids arbitrary: pw)
  case Nil
  then show ?case by simp
next
  case (Cons i ids)
  show ?case
  proof (cases "get_pending_withdrawal env i")
    case None
    with Cons show ?thesis by simp
  next
    case (Some w)
    show ?thesis
    proof (cases "wd_status w = PENDING \<and> i \<notin> fst ` set pw")
      case True
      obtain evs pw1 where sp: "start_processing cfg env w pw = (evs, pw1)"
        by (cases "start_processing cfg env w pw")
      have "distinct (map fst pw1)"
        using start_processing_distinct [OF Cons.prems, of cfg env w] sp by simp
      from Cons.IH [OF this] Some True sp show ?thesis
        by (auto split: prod.splits)
    next
      case False
      with Cons Some show ?thesis by auto
    qed
  qed
qed

lemma scan_withdrawals_skip:
  "rid \<notin> set ids \<Longrightarrow>
     starts_of rid (fst (scan_withdrawals cfg env ids pw)) = 0
     \<and> map_of (snd (scan_withdrawals cfg env ids pw)) rid = map_of pw rid"
proof (induction ids arbitrary: pw)
  case Nil
  then show ?case by simp
next
  case (Cons i ids)
  then have ne: "rid \<noteq> i" and notin: "rid \<notin> set ids" by auto
  show ?case
  proof (cases "get_pending_withdrawal env i")
    case None
    with Cons.IH [OF notin] show ?thesis by simp
  next
    case (Some w)
    have wid: "wd_request_id w = i" using Some by (rule get_pending_withdrawal_id)
    show ?thesis
    proof (cases "wd_status w = PENDING \<and> i \<notin> fst ` set pw")
      case True
      obtain evs pw1 where sp: "start_processing cfg env w pw = (evs, pw1)"
        by (cases "start_processing cfg env w pw")
      have e0: "starts_of rid evs = 0"
        using start_processing_starts [of rid cfg env w pw] sp ne wid by simp
      have m0: "map_of pw1 rid = map_of pw rid"
        using start_processing_other [of rid w cfg env pw] sp ne wid by simp
      from Cons.IH [OF notin, of pw1] Some True sp e0 m0 show ?thesis
        by (auto split: prod.splits)
    next
      case False
      with Cons.IH [OF notin, of pw] Some show ?thesis by auto
    qed
  qed
qed

lemma scan_withdrawals_present:
  "rid \<in> fst ` set pw \<Longrightarrow>
     starts_of rid (fst (scan_withdrawals cfg env ids pw)) = 0
     \<and> map_of (snd (scan_withdrawals cfg env ids pw)) rid = map_of pw rid"
proof (induction ids arbitrary: pw)
  case Nil
  then show ?case by simp
next
  case (Cons i ids)
  show ?case
  proof (cases "get_pending_withdrawal env i")
    case None
    with Cons.IH [OF Cons.prems] show ?thesis by simp
  next
    case (Some w)
    have wid: "wd_request_id w = i" using Some by (rule get_pending_withdrawal_id)
    show ?thesis
    proof (cases "wd_status w = PENDING \<and> i \<notin> fst ` set pw")
      case True
      then have ne: "rid \<noteq> i" using Cons.prems by auto
      obtain evs pw1 where sp: "start_processing cfg env w pw = (evs, pw1)"
        by (cases "start_processing cfg env w pw")
      have e0: "starts_of rid evs = 0"
        using start_processing_starts [of rid cfg env w pw] sp ne wid by simp
      have m0: "map_of pw1 rid = map_of pw rid"
        using start_processing_other [of rid w cfg env pw] sp ne wid by simp
      have "rid \<in> fst ` set pw1"
        using m0 Cons.prems by (simp add: keys_map_of)
      from Cons.IH [OF this] Some True sp e0 m0 show ?thesis
        by (auto split: prod.splits)
    next
      case False
      with Cons.IH [OF Cons.prems] Some show ?thesis by auto
    qed
  qed
qed

lemma scan_withdrawals_first:
  assumes "rid \<notin> fst ` set pw" "distinct ids" "rid \<in> set ids"
    and "pending_withdrawal env rid = Some w" "wd_status w = PENDING"
  shows "starts_of rid (fst (scan_withdrawals cfg env ids pw)) = 1"
  using assms(1-3)
proof (induction ids arbitrary: pw)
  case Nil
  then show ?case by simp
next
  case (Cons i ids)
  show ?case
  proof (cases "i = rid")
    case True
    let ?w = "w\<lparr>wd_request_id := rid\<rparr>"
    have g: "get_pending_withdrawal env i = Some ?w"
      using assms(4) True by (simp add: get_pending_withdrawal_def)
    have notin: "rid \<notin> set ids" using Cons.prems True by auto
    obtain evs pw1 where sp: "start_processing cfg env ?w pw = (evs, pw1)"
      by (cases "start_processing cfg env ?w pw")
    have e1: "starts_of rid evs = 1"
      using start_processing_starts [of rid cfg env ?w pw] sp by simp
    from scan_withdrawals_skip [OF notin, of cfg env pw1] g sp e1 True Cons.prems assms(5)
    show ?thesis by (auto split: prod.splits)
  next
    case False
    then have inrest: "rid \<in> set ids" and d: "distinct ids" using Cons.prems by auto
    show ?thesis
    proof (cases "get_pending_withdrawal env i")
      case None
      with Cons.IH [OF Cons.prems(1) d inrest] show ?thesis by simp
    next
      case (Some w')
      have wid: "wd_request_id w' = i" using Some by (rule get_pending_withdrawal_id)
      show ?thesis
      proof (cases "wd_status w' = PENDING \<and> i \<notin> fst ` set pw")
        case True
        obtain evs pw1 where sp: "start_processing cfg env w' pw = (evs, pw1)"
          by (cases "start_processing cfg env w' pw")
        have e0: "starts_of rid evs = 0"
          using start_processing_starts [of rid cfg env w' pw] sp False wid by simp
        have m0: "map_of pw1 rid = map_of pw rid"
          using start_processing_other [of rid w' cfg env pw] sp False wid by simp
        have "rid \<notin> fst ` set pw1"
          using m0 Cons.prems(1) by (simp add: keys_map_of)
        from Cons.IH [OF this d inrest] Some True sp e0 show ?thesis
          by (auto split: prod.splits)
      next
        case False
        with Cons.IH [OF Cons.prems(1) d inrest] Some show ?thesis by auto
      qed
    qed
  qed
qed

lemma fold_delete_distinct:
  "distinct (map fst pw) \<Longrightarrow> distinct (map fst (fold AList.delete ks pw))"
  by (induction ks arbitrary: pw) (simp_all add: distinct_delete)

lemma check_processing_distinct:
  "distinct (map fst pw) \<Longrightarrow> distinct (map fst (snd (check_processing_withdrawals env pw)))"
  by (simp add: check_processing_withdrawals_def fold_delete_distinct split: prod.splits)

lemma process_pending_distinct:
  "distinct (map fst pw) \<Longrightarrow>
     distinct (map fst (snd (process_pending_withdrawals cfg env pw)))"
  by (simp add: process_pending_withdrawals_def scan_withdrawals_distinct)

lemma withdrawal_tick_distinct:
  assumes "distinct (map fst pw)"
  shows "distinct (map fst (snd (withdrawal_tick cfg env pw)))"
proof -
  have "distinct (map fst (snd (process_pending_withdrawals cfg env pw)))"
    using assms by (rule process_pending_distinct)
  then have "distinct (map fst (snd (check_processing_withdrawals env
                 (snd (process_pending_withdrawals cfg env pw)))))"
    by (rule check_processing_distinct)
  then show ?thesis
    by (simp add: withdrawal_tick_def case_prod_beta)
qed

lemma withdrawal_ticks_distinct:
  "distinct (map fst pw) \<Longrightarrow> distinct (map fst (withdrawal_ticks cfg envs pw))"
  by (induction envs arbitrary: pw) (simp_all add: withdrawal_tick_distinct)


lemma check_entries_starts: "starts_of rid (fst (check_entries env pw)) = 0"
proof (induction pw)
  case Nil
  then show ?case by simp
next
  case (Cons a pw)
  obtain k d where a: "a = (k, d)" by (cases a)
  have "starts_of rid (fst (complete_processing env k d)) = 0"
    by (simp add: complete_processing_def starts_of_def split: option.splits)
  with Cons a show ?case
    by (auto simp: case_prod_beta)
qed

lemma process_pending_present:
  "rid \<in> fst ` set pw \<Longrightarrow>
     starts_of rid (fst (process_pending_withdrawals cfg env pw)) = 0
     \<and> map_of (snd (process_pending_withdrawals cfg env pw)) rid = map_of pw rid"
  by (simp add: process_pending_withdrawals_def scan_withdrawals_present)

lemma process_pending_first:
  assumes "rid \<notin> fst ` set pw" "rid < queue_length env"
    and "pending_withdrawal env rid = Some w" "wd_status w = PENDING"
  shows "starts_of rid (fst (process_pending_withdrawals cfg env pw)) = 1"
proof -
  have "rid \<in> set [0 ..< queue_length env]" using assms(2) by simp
  from scan_withdrawals_first [OF assms(1) _ this assms(3,4), of cfg] assms(2)
  show ?thesis by (simp add: process_pending_withdrawals_def)
qed

text \<open>The first tick of the withdrawal scenario, with an empty wallet.\<close>

lemma upt_0_3: "[0 ..< 3] = [0, 1, 2::nat]"
  by (simp add: upt_rec)

lemma scenario_first_tick:
  "withdrawal_tick default_settings (scenario_withdrawal_env 0) []
     = ([StartProcessing 2, Gateway 2 (WithdrawFromExtended 250)], [(2, scenario_entry)])"
  by (simp add: withdrawal_tick_def process_pending_withdrawals_def scenario_withdrawal_env_def
        get_pending_withdrawal_def scenario_withdrawal_def start_processing_def
        calculate_usdc_value_def close_proportional_position_def
        check_processing_withdrawals_def scenario_entry_def upt_0_3 float_eval)

text \<open>
  Claim C2 (withdrawal dedup).  From the empty processing set, after any sequence of
  ticks, and after the scan that follows them, no request id occurs twice among the keys
  of the processing set.  A scan that finds an entry for a request id does not enter
  \<open>_start_processing\<close> for it, whatever status it observes, and leaves its entry as it
  is.  A request that is observed PENDING by a tick and has an entry after that tick is
  started exactly once over that tick and the following scan.
\<close>

theorem C2_withdrawal_dedup:
  "distinct (map fst (withdrawal_ticks cfg envs withdrawal_processor_init))
   \<and> distinct (map fst (snd (process_pending_withdrawals cfg env
                  (withdrawal_ticks cfg envs withdrawal_processor_init))))
   \<and> (rid \<in> fst ` set pw \<longrightarrow>
         starts_of rid (fst (process_pending_withdrawals cfg env pw)) = 0
         \<and> map_of (snd (process_pending_withdrawals cfg env pw)) rid = map_of pw rid)
   \<and> (rid \<notin> fst ` set pw \<and> rid < queue_length env1
        \<and> pending_withdrawal env1 rid = Some w \<and> wd_status w = PENDING
        \<and> rid \<in> fst ` set (snd (withdrawal_tick cfg env1 pw)) \<longrightarrow>
         starts_of rid
           (fst (withdrawal_tick cfg env1 pw)
            @ fst (process_pending_withdrawals cfg env2 (snd (withdrawal_tick cfg env1 pw)))) = 1)"
proof -
  have init: "distinct (map fst withdrawal_processor_init)"
    by (simp add: withdrawal_processor_init_def)
  have a: "distinct (map fst (withdrawal_ticks cfg envs withdrawal_processor_init))"
    using init by (rule withdrawal_ticks_distinct)
  have b: "distinct (map fst (snd (process_pending_withdrawals cfg env
                  (withdrawal_ticks cfg envs withdrawal_processor_init))))"
    using a by (rule process_pending_distinct)
  have c: "rid \<in> fst ` set pw \<longrightarrow>
         starts_of rid (fst (process_pending_withdrawals cfg env pw)) = 0
         \<and> map_of (snd (process_pending_withdrawals cfg env pw)) rid = map_of pw rid"
    using process_pending_present [of rid pw cfg env] by blast
  have d: "starts_of rid
           (fst (withdrawal_tick cfg env1 pw)
            @ fst (process_pending_withdrawals cfg env2 (snd (withdrawal_tick cfg env1 pw)))) = 1"
    if h: "rid \<notin> fst ` set pw" "rid < queue_length env1"
        "pending_withdrawal env1 rid = Some w" "wd_status w = PENDING"
        "rid \<in> fst ` set (snd (withdrawal_tick cfg env1 pw))"
  proof -
    have s1: "starts_of rid (fst (process_pending_withdrawals cfg env1 pw)) = 1"
      using h(1-4) by (rule process_pending_first)
    have s2: "starts_of rid (fst (check_processing_withdrawals env1
                 (snd (process_pending_withdrawals cfg env1 pw)))) = 0"
      by (simp add: check_processing_withdrawals_def case_prod_beta check_entries_starts)
    have t: "starts_of rid (fst (withdrawal_tick cfg env1 pw)) = 1"
      using s1 s2 by (simp add: withdrawal_tick_def case_prod_beta)
    have s3: "starts_of rid (fst (process_pending_withdrawals cfg env2
                 (snd (withdrawal_tick cfg env1 pw)))) = 0"
      using process_pending_present [OF h(5), of cfg env2] by simp
    from t s3 show ?thesis by simp
  qed
  from a b c d show ?thesis by blast
qed


text \<open>
  C2 on the withdrawal scenario: request 2 is observed PENDING in two successive scans
  and is started once; a scan that already finds its entry starts nothing.
\<close>

theorem C2_withdrawal_dedup_witness:
  "(2::nat) \<notin> fst ` set withdrawal_processor_init
   \<and> 2 < queue_length (scenario_withdrawal_env 0)
   \<and> pending_withdrawal (scenario_withdrawal_env 0) 2 = Some (scenario_withdrawal PENDING)
   \<and> wd_status (scenario_withdrawal PENDING) = PENDING
   \<and> 2 \<in> fst ` set (snd (withdrawal_tick default_settings (scenario_withdrawal_env 0)
                            withdrawal_processor_init))
   \<and> starts_of 2
        (fst (withdrawal_tick default_settings (scenario_withdrawal_env 0)
                withdrawal_processor_init)
         @ fst (process_pending_withdrawals default_settings (scenario_withdrawal_env 0)
                  (snd (withdrawal_tick default_settings (scenario_withdrawal_env 0)
                          withdrawal_processor_init)))) = 1
   \<and> 2 \<in> fst ` set [(2::nat, scenario_entry)]
   \<and> starts_of 2 (fst (process_pending_withdrawals default_settings
                          (scenario_withdrawal_env 0) [(2, scenario_entry)])) = 0"
proof -
  have h: "(2::nat) \<notin> fst ` set withdrawal_processor_init
      \<and> 2 < queue_length (scenario_withdrawal_env 0)
      \<and> pending_withdrawal (scenario_withdrawal_env 0) 2 = Some (scenario_withdrawal PENDING)
      \<and> wd_status (scenario_withdrawal PENDING) = PENDING
      \<and> 2 \<in> fst ` set (snd (withdrawal_tick default_settings (scenario_withdrawal_env 0)
                            withdrawal_processor_init))"
    by (simp add: withdrawal_processor_init_def scenario_first_tick)
       (simp add: scenario_withdrawal_env_def scenario_withdrawal_def)
  have k: "2 \<in> fst ` set [(2::nat, scenario_entry)]"
    by simp
  from C2_withdrawal_dedup
         [of default_settings "[]" "scenario_withdrawal_env 0" 2 withdrawal_processor_init
             "scenario_withdrawal_env 0" "scenario_withdrawal PENDING" "scenario_withdrawal_env 0"]
       C2_withdrawal_dedup
         [of default_settings "[]" "scenario_withdrawal_env 0" 2 "[(2, scenario_entry)]"
             "scenario_withdrawal_env 0" "scenario_withdrawal PENDING" "scenario_withdrawal_env 0"]
       h k
  show ?thesis by blast
qed

text \<open>What the check of the processing set completes, keeps and emits.\<close>

lemma check_entries_completed:
  "snd (check_entries env pw) = map fst (filter (\<lambda>(rid, d). completes env rid d) pw)"
proof (induction pw)
  case Nil
  then show ?case by simp
next
  case (Cons a pw)
  obtain k d where a: "a = (k, d)" by (cases a)
  have "snd (complete_processing env k d) \<longleftrightarrow>
          forward_result env k \<noteq> None \<and> mark_ready_result env k \<noteq> None"
    by (cases "forward_result env k") (simp_all add: complete_processing_def)
  then show ?case using Cons a
    by (simp add: case_prod_beta completes_def)
qed

lemma map_of_fold_delete:
  "map_of (fold AList.delete ks pw) rid = (if rid \<in> set ks then None else map_of pw rid)"
  by (induction ks arbitrary: pw) (simp_all add: delete_conv')

lemma completed_iff:
  assumes "distinct (map fst pw)" "map_of pw rid = Some d"
  shows "rid \<in> set (snd (check_entries env pw)) \<longleftrightarrow> completes env rid d"
proof
  assume "rid \<in> set (snd (check_entries env pw))"
  then obtain d' where m: "(rid, d') \<in> set pw" and c: "completes env rid d'"
    by (auto simp: check_entries_completed)
  from assms(1) m have "map_of pw rid = Some d'" by (rule map_of_is_SomeI)
  with assms(2) c show "completes env rid d" by simp
next
  assume c: "completes env rid d"
  have "(rid, d) \<in> set pw" using assms(2) by (rule map_of_SomeD)
  with c have "(rid, d) \<in> set (filter (\<lambda>(rid, d). completes env rid d) pw)" by simp
  then have "fst (rid, d) \<in> fst ` set (filter (\<lambda>(rid, d). completes env rid d) pw)"
    by (rule imageI)
  then show "rid \<in> set (snd (check_entries env pw))"
    by (simp add: check_entries_completed)
qed

lemma check_processing_entry:
  assumes "distinct (map fst pw)" "map_of pw rid = Some d"
  shows "map_of (snd (check_processing_withdrawals env pw)) rid
           = (if completes env rid d then None else Some d)"
  using completed_iff [OF assms, of env] assms(2)
  by (simp add: check_processing_withdrawals_def case_prod_beta map_of_fold_delete)

lemma check_entries_retries:
  "(rid, d) \<in> set pw \<Longrightarrow> pe_step d = waiting_usdc \<Longrightarrow>
     usdc_balance env rid \<ge> pe_usdc_value d \<Longrightarrow>
     Gateway rid (SendUsdcToVault (pe_usdc_value d)) \<in> set (fst (check_entries env pw))"
proof (induction pw)
  case Nil
  then show ?case by simp
next
  case (Cons a pw)
  obtain k e where a: "a = (k, e)" by (cases a)
  show ?case
  proof (cases "(rid, d) = a")
    case True
    with Cons.prems a show ?thesis
      by (auto simp: case_prod_beta complete_processing_def split: option.splits)
  next
    case False
    with Cons a show ?thesis
      by (auto simp: case_prod_beta)
  qed
qed

lemma start_processing_cleared:
  "withdraw_result env (wd_request_id w) = Raised
     \<or> withdraw_result env (wd_request_id w) = Returned None \<Longrightarrow>
   0 < calculate_usdc_value env (wd_shares w) \<Longrightarrow>
   map_of (snd (start_processing cfg env w pw)) (wd_request_id w) = None"
  by (auto simp: start_processing_def Let_def delete_conv')

lemma start_processing_invalid:
  "calculate_usdc_value env (wd_shares w) \<le> 0 \<Longrightarrow>
     start_processing cfg env w pw = ([StartProcessing (wd_request_id w)], pw)"
  by (simp add: start_processing_def Let_def)

section \<open>Withdrawal processor: the scenario, entry removal and the amount marked ready\<close>

text \<open>
  The later ticks of the withdrawal scenario: the scan skips request 2, and the check
  completes it exactly when the wallet holds at least 250.00.
\<close>

lemma scenario_entry_checked:
  "check_processing_withdrawals (scenario_withdrawal_env b) [(2, scenario_entry)]
     = (if 250 \<le> b
        then ([Gateway 2 (SendUsdcToVault 250),
               Gateway 2 (InvokeContract ''mark_withdrawal_ready'' [2, 250000000])], [])
        else ([], [(2, scenario_entry)]))"
  by (simp add: check_processing_withdrawals_def scenario_withdrawal_env_def scenario_entry_def
        complete_processing_def to_raw6_def py_int_def AList.delete_eq float_eval)

lemma scenario_entry_skipped:
  "process_pending_withdrawals default_settings (scenario_withdrawal_env b) [(2, scenario_entry)]
     = ([], [(2, scenario_entry)])"
  by (simp add: process_pending_withdrawals_def scenario_withdrawal_env_def
        get_pending_withdrawal_def scenario_withdrawal_def upt_0_3)

lemma scenario_forward_fails_tick:
  "withdrawal_tick default_settings scenario_forward_fails [(2, scenario_entry)]
     = ([Gateway 2 (SendUsdcToVault 250)], [(2, scenario_entry)])"
  by (simp add: withdrawal_tick_def process_pending_withdrawals_def scenario_forward_fails_def
        scenario_withdrawal_env_def get_pending_withdrawal_def scenario_withdrawal_def upt_0_3
        check_processing_withdrawals_def scenario_entry_def complete_processing_def)

lemma scenario_second_tick:
  "withdrawal_tick default_settings (scenario_withdrawal_env b) [(2, scenario_entry)]
     = (if 250 \<le> b
        then ([Gateway 2 (SendUsdcToVault 250),
               Gateway 2 (InvokeContract ''mark_withdrawal_ready'' [2, 250000000])], [])
        else ([], [(2, scenario_entry)]))"
  by (simp add: withdrawal_tick_def scenario_entry_skipped scenario_entry_checked)

text \<open>
  Claim C5 says that every failure before the forward-and-mark-ready step has fully
  succeeded clears the entry, so that the next tick starts again at the closing-position
  step.  It does not: request 2 waits with 250.00 due, the wallet holds 250.00 and the
  transfer to the vault fails; the tick leaves the entry in place, and it does not go
  back to the closing-position step but has tried the transfer.  With a transfer and a
  mark-ready invocation that succeed, the same tick removes the entry.
\<close>

theorem C5_failure_clears_entry_counterexample:
  "map_of [(2, scenario_entry)] 2 = Some scenario_entry
   \<and> pe_step scenario_entry = waiting_usdc
   \<and> usdc_balance scenario_forward_fails 2 \<ge> pe_usdc_value scenario_entry
   \<and> forward_result scenario_forward_fails 2 = None
   \<and> withdrawal_tick default_settings scenario_forward_fails [(2, scenario_entry)]
        = ([Gateway 2 (SendUsdcToVault 250)], [(2, scenario_entry)])
   \<and> withdrawal_tick default_settings (scenario_withdrawal_env 250) [(2, scenario_entry)]
        = ([Gateway 2 (SendUsdcToVault 250),
            Gateway 2 (InvokeContract ''mark_withdrawal_ready'' [2, 250000000])], [])"
  by (simp add: scenario_forward_fails_tick scenario_second_tick)
     (simp add: scenario_forward_fails_def scenario_withdrawal_env_def scenario_entry_def)

text \<open>
  Claim C5 as amended.  The check removes an entry exactly when the
  forward-and-mark-ready step fully succeeds for it (the entry waits for the settlement
  asset, the balance covers its amount, the transfer and the mark-ready invocation both
  succeed); otherwise it keeps the entry as it is.  A start whose exchange withdrawal
  request returns nothing, or raises, deletes the entry, and a start whose valuation is
  not positive leaves the processing set as it was; a request without an entry that a
  scan observes PENDING is started again, from the closing-position step.  A request
  whose entry waits for the settlement asset is not started again by the next tick;
  that tick retries the transfer as soon as the balance covers the amount.
\<close>

theorem C5_processing_entry_removal:
  "(distinct (map fst pw) \<and> map_of pw rid = Some d \<longrightarrow>
      map_of (snd (check_processing_withdrawals env pw)) rid
        = (if completes env rid d then None else Some d))
   \<and> (wd_request_id w = rid \<and> 0 < calculate_usdc_value env (wd_shares w)
        \<and> (withdraw_result env rid = Returned None \<or> withdraw_result env rid = Raised) \<longrightarrow>
         map_of (snd (start_processing cfg env w pw)) rid = None)
   \<and> (wd_request_id w = rid \<and> calculate_usdc_value env (wd_shares w) \<le> 0 \<longrightarrow>
         snd (start_processing cfg env w pw) = pw)
   \<and> (map_of pw rid = None \<and> rid < queue_length env2
        \<and> pending_withdrawal env2 rid = Some w2 \<and> wd_status w2 = PENDING \<longrightarrow>
         starts_of rid (fst (process_pending_withdrawals cfg env2 pw)) = 1)
   \<and> (map_of pw rid = Some d \<and> pe_step d = waiting_usdc \<longrightarrow>
         starts_of rid (fst (withdrawal_tick cfg env2 pw)) = 0
         \<and> (usdc_balance env2 rid \<ge> pe_usdc_value d \<longrightarrow>
              Gateway rid (SendUsdcToVault (pe_usdc_value d))
                \<in> set (fst (withdrawal_tick cfg env2 pw))))"
proof -
  have a: "distinct (map fst pw) \<and> map_of pw rid = Some d \<longrightarrow>
      map_of (snd (check_processing_withdrawals env pw)) rid
        = (if completes env rid d then None else Some d)"
    using check_processing_entry [of pw rid d env] by blast
  have b: "wd_request_id w = rid \<and> 0 < calculate_usdc_value env (wd_shares w)
        \<and> (withdraw_result env rid = Returned None \<or> withdraw_result env rid = Raised) \<longrightarrow>
         map_of (snd (start_processing cfg env w pw)) rid = None"
    using start_processing_cleared [of env w cfg pw] by auto
  have c: "wd_request_id w = rid \<and> calculate_usdc_value env (wd_shares w) \<le> 0 \<longrightarrow>
         snd (start_processing cfg env w pw) = pw"
    using start_processing_invalid [of env w cfg pw] by simp
  have d: "map_of pw rid = None \<and> rid < queue_length env2
        \<and> pending_withdrawal env2 rid = Some w2 \<and> wd_status w2 = PENDING \<longrightarrow>
         starts_of rid (fst (process_pending_withdrawals cfg env2 pw)) = 1"
    using process_pending_first [of rid pw env2 w2 cfg] by (simp add: keys_map_of)
  have e: "starts_of rid (fst (withdrawal_tick cfg env2 pw)) = 0
         \<and> (usdc_balance env2 rid \<ge> pe_usdc_value d \<longrightarrow>
              Gateway rid (SendUsdcToVault (pe_usdc_value d))
                \<in> set (fst (withdrawal_tick cfg env2 pw)))"
    if h: "map_of pw rid = Some d" "pe_step d = waiting_usdc"
  proof -
    let ?pw1 = "snd (process_pending_withdrawals cfg env2 pw)"
    have k: "rid \<in> fst ` set pw" using h(1) by (simp add: keys_map_of)
    have s1: "starts_of rid (fst (process_pending_withdrawals cfg env2 pw)) = 0"
      and m1: "map_of ?pw1 rid = Some d"
      using process_pending_present [OF k, of cfg env2] h(1) by simp_all
    have s2: "starts_of rid (fst (check_processing_withdrawals env2 ?pw1)) = 0"
      by (simp add: check_processing_withdrawals_def case_prod_beta check_entries_starts)
    have mem: "(rid, d) \<in> set ?pw1" using m1 by (rule map_of_SomeD)
    have ev: "Gateway rid (SendUsdcToVault (pe_usdc_value d))
                \<in> set (fst (check_processing_withdrawals env2 ?pw1))"
      if "usdc_balance env2 rid \<ge> pe_usdc_value d"
      using check_entries_retries [OF mem h(2) that]
      by (simp add: check_processing_withdrawals_def case_prod_beta)
    from s1 s2 ev show ?thesis
      by (simp add: withdrawal_tick_def case_prod_beta)
  qed
  from a b c d e show ?thesis by blast
qed

text \<open>C5 as amended, on the variants of the withdrawal scenario.\<close>

theorem C5_processing_entry_removal_witness:
  "distinct (map fst [(2::nat, scenario_entry)])
   \<and> map_of [(2::nat, scenario_entry)] 2 = Some scenario_entry
   \<and> \<not> completes scenario_forward_fails 2 scenario_entry
   \<and> map_of (snd (check_processing_withdrawals scenario_forward_fails [(2, scenario_entry)])) 2
        = Some scenario_entry
   \<and> completes (scenario_withdrawal_env 250) 2 scenario_entry
   \<and> map_of (snd (check_processing_withdrawals (scenario_withdrawal_env 250)
                     [(2, scenario_entry)])) 2 = None
   \<and> wd_request_id (scenario_withdrawal PENDING) = 2
   \<and> 0 < calculate_usdc_value scenario_withdraw_rejected (wd_shares (scenario_withdrawal PENDING))
   \<and> withdraw_result scenario_withdraw_rejected 2 = Returned None
   \<and> map_of (snd (start_processing default_settings scenario_withdraw_rejected
                     (scenario_withdrawal PENDING) [])) 2 = None
   \<and> calculate_usdc_value scenario_preview_fails (wd_shares (scenario_withdrawal PENDING)) \<le> 0
   \<and> snd (start_processing default_settings scenario_preview_fails
             (scenario_withdrawal PENDING) []) = []
   \<and> map_of ([] :: processing_withdrawals) 2 = None
   \<and> 2 < queue_length (scenario_withdrawal_env 0)
   \<and> pending_withdrawal (scenario_withdrawal_env 0) 2 = Some (scenario_withdrawal PENDING)
   \<and> starts_of 2 (fst (process_pending_withdrawals default_settings
                          (scenario_withdrawal_env 0) [])) = 1
   \<and> pe_step scenario_entry = waiting_usdc
   \<and> usdc_balance (scenario_withdrawal_env 250) 2 \<ge> pe_usdc_value scenario_entry
   \<and> starts_of 2 (fst (withdrawal_tick default_settings (scenario_withdrawal_env 250)
                          [(2, scenario_entry)])) = 0
   \<and> Gateway 2 (SendUsdcToVault (pe_usdc_value scenario_entry))
        \<in> set (fst (withdrawal_tick default_settings (scenario_withdrawal_env 250)
                       [(2, scenario_entry)]))"
proof -
  have h1: "distinct (map fst [(2::nat, scenario_entry)])
      \<and> map_of [(2::nat, scenario_entry)] 2 = Some scenario_entry"
    by simp
  have h2: "\<not> completes scenario_forward_fails 2 scenario_entry"
    and h3: "completes (scenario_withdrawal_env 250) 2 scenario_entry"
    by (simp_all add: completes_def scenario_forward_fails_def scenario_withdrawal_env_def
          scenario_entry_def)
  have h4: "wd_request_id (scenario_withdrawal PENDING) = 2"
    and h5: "0 < calculate_usdc_value scenario_withdraw_rejected
                   (wd_shares (scenario_withdrawal PENDING))"
    and h6: "withdraw_result scenario_withdraw_rejected 2 = Returned None"
    and h7: "calculate_usdc_value scenario_preview_fails
               (wd_shares (scenario_withdrawal PENDING)) \<le> 0"
    by (simp_all add: scenario_withdrawal_def calculate_usdc_value_def
          scenario_withdraw_rejected_def scenario_preview_fails_def scenario_withdrawal_env_def
          float_eval)
  have h8: "map_of ([] :: processing_withdrawals) 2 = None
      \<and> 2 < queue_length (scenario_withdrawal_env 0)
      \<and> pending_withdrawal (scenario_withdrawal_env 0) 2 = Some (scenario_withdrawal PENDING)
      \<and> wd_status (scenario_withdrawal PENDING) = PENDING"
    by (simp add: scenario_withdrawal_env_def scenario_withdrawal_def)
  have h9: "pe_step scenario_entry = waiting_usdc
      \<and> usdc_balance (scenario_withdrawal_env 250) 2 \<ge> pe_usdc_value scenario_entry"
    by (simp add: scenario_withdrawal_env_def scenario_entry_def)
  note inst1 = C5_processing_entry_removal
    [where pw = "[(2, scenario_entry)]" and rid = 2 and d = scenario_entry
       and env = scenario_forward_fails and w = "scenario_withdrawal PENDING"
       and cfg = default_settings and ?env2.0 = "scenario_withdrawal_env 250"
       and ?w2.0 = "scenario_withdrawal PENDING"]
  note inst2 = C5_processing_entry_removal
    [where pw = "[(2, scenario_entry)]" and rid = 2 and d = scenario_entry
       and env = "scenario_withdrawal_env 250" and w = "scenario_withdrawal PENDING"
       and cfg = default_settings and ?env2.0 = "scenario_withdrawal_env 250"
       and ?w2.0 = "scenario_withdrawal PENDING"]
  note inst3 = C5_processing_entry_removal
    [where pw = "[]" and rid = 2 and d = scenario_entry
       and env = scenario_withdraw_rejected and w = "scenario_withdrawal PENDING"
       and cfg = default_settings and ?env2.0 = "scenario_withdrawal_env 0"
       and ?w2.0 = "scenario_withdrawal PENDING"]
  note inst4 = C5_processing_entry_removal
    [where pw = "[]" and rid = 2 and d = scenario_entry
       and env = scenario_preview_fails and w = "scenario_withdrawal PENDING"
       and cfg = default_settings and ?env2.0 = "scenario_withdrawal_env 0"
       and ?w2.0 = "scenario_withdrawal PENDING"]
  have c1: "map_of (snd (check_processing_withdrawals scenario_forward_fails
                           [(2, scenario_entry)])) 2 = Some scenario_entry"
    using inst1 h1 h2 by simp
  have c2: "map_of (snd (check_processing_withdrawals (scenario_withdrawal_env 250)
                     [(2, scenario_entry)])) 2 = None"
    using inst2 h1 h3 by simp
  have c3: "map_of (snd (start_processing default_settings scenario_withdraw_rejected
                     (scenario_withdrawal PENDING) [])) 2 = None"
    using inst3 h4 h5 h6 by blast
  have c4: "snd (start_processing default_settings scenario_preview_fails
             (scenario_withdrawal PENDING) []) = []"
    using inst4 h4 h7 by blast
  have c5: "starts_of 2 (fst (process_pending_withdrawals default_settings
                          (scenario_withdrawal_env 0) [])) = 1"
    using inst3 h8 by blast
  have c6: "starts_of 2 (fst (withdrawal_tick default_settings (scenario_withdrawal_env 250)
                          [(2, scenario_entry)])) = 0
      \<and> Gateway 2 (SendUsdcToVault (pe_usdc_value scenario_entry))
        \<in> set (fst (withdrawal_tick default_settings (scenario_withdrawal_env 250)
                       [(2, scenario_entry)]))"
    using inst1 h1 h9 by blast
  from h1 h2 h3 h4 h5 h6 h7 h8 h9 c1 c2 c3 c4 c5 c6 show ?thesis by blast
qed

text \<open>
  Claim C6 (half-value split and READY transition) says that \<open>mark_withdrawal_ready\<close>
  is invoked with the amount \<open>V / 2\<close>.  For a preview valuation of 4.02 (4020000 at six
  decimals) the half is 2.01, which is 2010000 at six decimals.  The code reads the
  valuation as the double nearest to 4.02, halves it, requests and forwards that half,
  and then converts it with \<open>int(usdc_value * 1e6)\<close>: the float product lies just below
  2010000 and is truncated, so the amount passed to \<open>mark_withdrawal_ready\<close> is
  2009999.
\<close>

theorem C6_mark_ready_amount_truncated:
  "calculate_usdc_value scenario_truncation (wd_shares (scenario_withdrawal PENDING))
     = double (402 / 100)
   \<and> fdiv (double (402 / 100)) 2 = double (201 / 100)
   \<and> usdc_balance scenario_truncation 2 \<ge> double (201 / 100)
   \<and> withdrawal_tick default_settings scenario_truncation withdrawal_processor_init
        = ([StartProcessing 2,
            Gateway 2 (WithdrawFromExtended (double (201 / 100))),
            Gateway 2 (SendUsdcToVault (double (201 / 100))),
            Gateway 2 (InvokeContract ''mark_withdrawal_ready'' [2, 2009999])], [])
   \<and> (4020000 :: int) div 2 = 2010000"
  by (simp add: withdrawal_tick_def process_pending_withdrawals_def scenario_truncation_def
        scenario_withdrawal_env_def withdrawal_processor_init_def
        get_pending_withdrawal_def scenario_withdrawal_def start_processing_def
        calculate_usdc_value_def close_proportional_position_def
        check_processing_withdrawals_def complete_processing_def to_raw6_def py_int_def
        AList.delete_eq upt_0_3 float_eval)

section \<open>Deposit processor: the scan\<close>

lemma process_single_deposit_ids:
  "e \<in> set (fst (process_single_deposit cfg env d)) \<Longrightarrow> fst e = dq_request_id d"
  by (auto simp: process_single_deposit_def Let_def split: option.splits)

lemma process_single_deposit_mints:
  "mints_for rid (fst (process_single_deposit cfg env d))
     = (if rid = dq_request_id d then 1 else 0)"
  by (simp add: process_single_deposit_def Let_def mints_for_def split: option.splits)

lemma mints_for_append [simp]: "mints_for rid (xs @ ys) = mints_for rid xs + mints_for rid ys"
  by (simp add: mints_for_def)

lemma mints_for_Nil [simp]: "mints_for rid [] = 0"
  by (simp add: mints_for_def)

lemma mints_for_none: "rid \<notin> fst ` set tr \<Longrightarrow> mints_for rid tr = 0"
  by (induction tr) (auto simp: mints_for_def)

lemma get_pending_deposit_id:
  "get_pending_deposit env rid = Some d \<Longrightarrow> dq_request_id d = rid"
  by (auto simp: get_pending_deposit_def)

lemma get_pending_deposit_fields:
  "get_pending_deposit env rid = Some d \<Longrightarrow>
     \<exists>d0. pending_deposit_read env rid = Some d0 \<and> dq_processed d0 = dq_processed d
          \<and> dq_user d0 = dq_user d \<and> dq_usdc_amount d0 = dq_usdc_amount d"
  by (auto simp: get_pending_deposit_def)

text \<open>Every call of a scan was made for a slot of the scan that read back as an open deposit.\<close>

lemma scan_deposits_call:
  "(rid, c) \<in> set (scan_deposits cfg env ids) \<Longrightarrow>
     rid \<in> set ids
     \<and> (\<exists>d. pending_deposit_read env rid = Some d \<and> \<not> dq_processed d
              \<and> dq_user d \<noteq> ''0x0'' \<and> \<not> dq_usdc_amount d \<le> double (1 / 100))"
proof (induction ids)
  case Nil
  then show ?case by simp
next
  case (Cons i ids)
  show ?case
  proof (cases "(rid, c) \<in> set (scan_deposits cfg env ids)")
    case True
    from Cons.IH [OF this] show ?thesis by simp
  next
    case False
    with Cons.prems obtain d where g: "get_pending_deposit env i = Some d"
      and u: "dq_user d \<noteq> ''0x0''" and p: "\<not> dq_processed d"
      and a: "\<not> dq_usdc_amount d \<le> double (1 / 100)"
      and m: "(rid, c) \<in> set (fst (process_single_deposit cfg env d))"
      by (auto split: option.splits if_splits)
    have "rid = i"
      using process_single_deposit_ids [OF m] get_pending_deposit_id [OF g] by simp
    with get_pending_deposit_fields [OF g] u p a show ?thesis by auto
  qed
qed

lemma scan_deposits_mints: "distinct ids \<Longrightarrow> mints_for rid (scan_deposits cfg env ids) \<le> 1"
proof (induction ids)
  case Nil
  then show ?case by simp
next
  case (Cons i ids)
  then have IH: "mints_for rid (scan_deposits cfg env ids) \<le> 1" and ni: "i \<notin> set ids"
    by simp_all
  show ?case
  proof (cases "get_pending_deposit env i")
    case None
    with IH show ?thesis by simp
  next
    case (Some d)
    have did: "dq_request_id d = i" using Some by (rule get_pending_deposit_id)
    show ?thesis
    proof (cases "rid = i")
      case True
      have "rid \<notin> fst ` set (scan_deposits cfg env ids)"
        using scan_deposits_call [of rid _ cfg env ids] ni True by force
      then have "mints_for rid (scan_deposits cfg env ids) = 0" by (rule mints_for_none)
      with Some did True show ?thesis
        by (simp add: process_single_deposit_mints)
    next
      case False
      with Some did IH show ?thesis
        by (simp add: process_single_deposit_mints)
    qed
  qed
qed

text \<open>One pass over the deposit scenario: the open deposit in slot 0 is processed, and the scan ends at slot 1.\<close>

lemma scenario_deposit_pass:
  "process_pending_deposits default_settings (scenario_deposit_env p)
     = (if p then []
        else [(0, InvokeContract ''process_deposits'' [1]), (0, DepositToExtended 500),
              (0, OpenShortPosition ''BTC-USD'' 1000)])"
proof -
  have "[0 ..< MAX_DEPOSITS] = 0 # 1 # [2 ..< MAX_DEPOSITS]"
    by (simp add: MAX_DEPOSITS_def upt_rec)
  then show ?thesis
    by (simp add: process_pending_deposits_def scenario_deposit_env_def scenario_deposit_def
          get_pending_deposit_def process_single_deposit_def default_settings_def float_eval)
qed

text \<open>
  Claim C3 (idempotent deposit scan).  A pass makes no gateway call for a queue entry
  that it reads as processed, and at most one mint invocation for any entry.  When a
  second pass reads an entry as processed (the first pass having marked it on-chain),
  the second pass makes no call for it, so the two passes together make no more mint
  invocations for it than the first pass alone, which is at most one.
\<close>

theorem C3_idempotent_deposit_scan:
  "(pending_deposit_read env rid = Some d \<and> dq_processed d \<longrightarrow>
      rid \<notin> fst ` set (process_pending_deposits cfg env))
   \<and> mints_for rid (process_pending_deposits cfg env) \<le> 1
   \<and> (pending_deposit_read env2 rid = Some d2 \<and> dq_processed d2 \<longrightarrow>
         rid \<notin> fst ` set (process_pending_deposits cfg env2)
         \<and> mints_for rid (process_pending_deposits cfg env @ process_pending_deposits cfg env2)
              = mints_for rid (process_pending_deposits cfg env)
         \<and> mints_for rid (process_pending_deposits cfg env @ process_pending_deposits cfg env2)
              \<le> 1)"
proof -
  have skip: "rid \<notin> fst ` set (process_pending_deposits cfg e)"
    if "pending_deposit_read e rid = Some x" "dq_processed x" for e x
  proof
    assume "rid \<in> fst ` set (process_pending_deposits cfg e)"
    then obtain c where "(rid, c) \<in> set (scan_deposits cfg e [0 ..< MAX_DEPOSITS])"
      by (auto simp: process_pending_deposits_def)
    from scan_deposits_call [OF this] that show False by auto
  qed
  have once: "mints_for rid (process_pending_deposits cfg env) \<le> 1"
    unfolding process_pending_deposits_def by (rule scan_deposits_mints) simp
  have twice: "mints_for rid (process_pending_deposits cfg env2) = 0"
    if "pending_deposit_read env2 rid = Some d2" "dq_processed d2"
    using skip [OF that] by (rule mints_for_none)
  from skip [of env d] skip [of env2 d2] once twice show ?thesis by auto
qed

text \<open>
  C3 on the deposit scenario: the first pass mints once for deposit 0, the second pass
  reads it as processed, and the two passes together mint once.
\<close>

theorem C3_idempotent_deposit_scan_witness:
  "pending_deposit_read (scenario_deposit_env True) 0 = Some (scenario_deposit True)
   \<and> dq_processed (scenario_deposit True)
   \<and> 0 \<notin> fst ` set (process_pending_deposits default_settings (scenario_deposit_env True))
   \<and> mints_for 0 (process_pending_deposits default_settings (scenario_deposit_env False)) = 1
   \<and> mints_for 0 (process_pending_deposits default_settings (scenario_deposit_env False)
                   @ process_pending_deposits default_settings (scenario_deposit_env True)) = 1"
proof -
  have h: "pending_deposit_read (scenario_deposit_env True) 0 = Some (scenario_deposit True)
      \<and> dq_processed (scenario_deposit True)"
    by (simp add: scenario_deposit_env_def scenario_deposit_def)
  have m: "mints_for 0 (process_pending_deposits default_settings (scenario_deposit_env False))
             = 1"
    by (simp add: scenario_deposit_pass mints_for_def)
  from C3_idempotent_deposit_scan
         [where env = "scenario_deposit_env True" and rid = 0 and d = "scenario_deposit True"
            and cfg = default_settings and ?env2.0 = "scenario_deposit_env True"
            and ?d2.0 = "scenario_deposit True"] h
  have c1: "0 \<notin> fst ` set (process_pending_deposits default_settings
                             (scenario_deposit_env True))"
    by blast
  from C3_idempotent_deposit_scan
         [where env = "scenario_deposit_env False" and rid = 0 and d = "scenario_deposit True"
            and cfg = default_settings and ?env2.0 = "scenario_deposit_env True"
            and ?d2.0 = "scenario_deposit True"] h
  have c2: "mints_for 0 (process_pending_deposits default_settings (scenario_deposit_env False)
                   @ process_pending_deposits default_settings (scenario_deposit_env True))
            = mints_for 0 (process_pending_deposits default_settings
                             (scenario_deposit_env False))"
    by blast
  from h m c1 c2 show ?thesis by simp
qed

section \<open>Position manager: the funding latch\<close>

text \<open>
  The parts of the latch that the check implements: below the negative threshold with
  the flag unset it issues one close order for the whole market and sets the flag; while
  the flag is set it issues no close order; the flag is set only by a read below the
  negative threshold.
\<close>

lemma funding_latch_set_and_hold:
  "(r < negative_funding_threshold \<and> \<not> position_closed_due_to_funding st \<longrightarrow>
      check_funding_rate cfg (Returned r) st
        = ([ClosePosition (market cfg) None], st\<lparr>position_closed_due_to_funding := True\<rparr>))
   \<and> (position_closed_due_to_funding st \<longrightarrow> fst (check_funding_rate cfg funding st) = [])
   \<and> (\<not> position_closed_due_to_funding st
        \<and> position_closed_due_to_funding (snd (check_funding_rate cfg funding st)) \<longrightarrow>
         (\<exists>r. funding = Returned r \<and> r < negative_funding_threshold))"
  by (cases funding)
     (auto simp: check_funding_rate_def close_all_positions_def)

text \<open>
  Claim C8 (funding-close latch) says that the flag is cleared exactly when funding turns
  positive again, and the comment and the log line of the clearing branch say the same
  (``Reopen if funding went positive again'', ``Funding rate positive'').  The code
  clears it earlier.  With the flag set, a funding rate of -0.00005 is read: it is
  negative, but not below the threshold of -0.0001, so the check takes the clearing
  branch and unsets the flag.
\<close>

theorem C8_flag_cleared_at_negative_rate:
  "position_closed_due_to_funding manager_latched
   \<and> double (- (1 / 20000)) < 0
   \<and> negative_funding_threshold \<le> double (- (1 / 20000))
   \<and> check_funding_rate default_settings (Returned (double (- (1 / 20000)))) manager_latched
        = ([], \<lparr>last_rebalance = None, position_closed_due_to_funding = False\<rparr>)"
proof -
  have r: "double (- (1 / 20000)) = - (7378697629483821 / 147573952589676412928)"
    and t: "negative_funding_threshold = - (7378697629483821 / 73786976294838206464)"
    by (simp_all add: negative_funding_threshold_def double_eval)
  show ?thesis
    by (simp add: r t check_funding_rate_def manager_latched_def)
qed

section \<open>Vault monitor: classification of balance changes\<close>







text \<open>
  Claim C10 (a balance decrease is never classified).  When no withdrawal is pending and
  the balance read is at most the last balance recorded, \<open>check_for_balance_changes\<close>
  makes no call at all (no transfer, no deposit, no write of the state file), changes
  nothing but the recorded last balance, which becomes the balance read, and returns 0.
\<close>

theorem C10_balance_decrease_not_classified:
  assumes "pending_withdrawal_amount m = 0"
    and "current_balance env \<le> last_balance m"
  shows "check_for_balance_changes env m = ([], m\<lparr>last_balance := current_balance env\<rparr>, 0)"
  using assms
  by (simp add: check_for_balance_changes_def classify_increase_def Let_def)

text \<open>C10 on a monitor that recorded 100.00 and now reads 40.00.\<close>

theorem C10_balance_decrease_not_classified_witness:
  "pending_withdrawal_amount monitor_idle = 0
   \<and> current_balance (monitor_env_of 40) \<le> last_balance monitor_idle
   \<and> check_for_balance_changes (monitor_env_of 40) monitor_idle
        = ([], \<lparr>last_balance = 40, pending_deposit = 5, pending_withdrawal_amount = 0\<rparr>, 0)"
proof -
  have h1: "pending_withdrawal_amount monitor_idle = 0"
    and h2: "current_balance (monitor_env_of 40) \<le> last_balance monitor_idle"
    by (simp_all add: monitor_idle_def monitor_env_of_def)
  from C10_balance_decrease_not_classified [OF h1 h2] h1 h2
  show ?thesis by (simp add: monitor_idle_def monitor_env_of_def)
qed

section \<open>Strategy: hedge orders\<close>

text \<open>The float results that the three passes need.\<close>

lemma strategy_arith:
  "calculate_apy default_settings (1 / 8192) = 27375 / 128"
  "fmul (1 / 1024) 102400 = 100" "fmul (1 / 16384) 102400 = 25 / 4"
  "fadd 100 80 = 180" "fadd 100 100 = 200" "fadd (25 / 4) 100 = 425 / 4"
  "fsub 100 80 = 20" "fsub 100 130 = - 30" "fsub (25 / 4) 0 = 25 / 4"
  "fdiv 20 180 = 2001599834386887 / 18014398509481984"
  "fdiv (- 30) 200 = - (5404319552844595 / 36028797018963968)"
  "fdiv (25 / 4) (425 / 4) = 4238682002231055 / 72057594037927936"
  "DELTA_THRESHOLD = 3602879701896397 / 72057594037927936"
  "funding_threshold_open default_settings = 4722366482869645 / 4722366482869645213696"
  by (simp_all add: calculate_apy_def DELTA_THRESHOLD_def default_settings_def float_eval)

lemma scenario_states:
  "get_state default_settings scenario_strategy_env = Returned scenario_state"
  "get_state default_settings net_short_env = Returned net_short_state"
  "get_state default_settings no_position_env = Returned no_position_state"
  "get_state default_settings net_short_price_fails_env = Returned net_short_state"
  by (simp_all add: get_state_def Let_def scenario_strategy_env_def net_short_env_def
        no_position_env_def net_short_price_fails_env_def strategy_env_of_def
        scenario_short_def scenario_state_def net_short_state_def no_position_state_def
        strategy_arith)

text \<open>The delta of a state that was read is the float quotient of the difference and the total NAV.\<close>

lemma get_state_delta:
  "get_state cfg env = Returned s \<Longrightarrow>
     delta s = (if total_nav s > 0 then fdiv (adjustment s) (total_nav s) else 0)"
  by (auto simp: get_state_def adjustment_def Let_def split: read.splits option.splits)

text \<open>
  Claim C7 says that the hedge is adjusted if and only if the delta is outside the band,
  the risk-asset value is positive and the difference between the risk-asset value and
  the hedge notional exceeds 10 dollars in magnitude.  Both directions fail.  With no
  position, a risk-asset value of 6.25 and an equity of 100 the delta is above the band
  and the difference of 6.25 is below the floor: the pass leaves the rebalancing step,
  and since funding is above the open threshold it opens a short of 6.25.  With a
  risk-asset value of 100 against a short of notional 130 all three conditions hold, but
  the mark price that sizes the decrease is read again, and when that read raises the
  pass raises and no order is placed.
\<close>

theorem C7_adjusts_iff_counterexample:
  "get_state default_settings no_position_env = Returned no_position_state
   \<and> \<bar>delta no_position_state\<bar> > DELTA_THRESHOLD
   \<and> wbtc_value_usd no_position_state > 0
   \<and> adjustment no_position_state = 25 / 4
   \<and> execute_strategy default_settings no_position_env
        = Returned ([OpenShortPosition ''BTC-USD'' (25 / 4)], OPEN_SHORT (25 / 4),
                    Some ''success'')
   \<and> get_state default_settings net_short_price_fails_env = Returned net_short_state
   \<and> \<bar>delta net_short_state\<bar> > DELTA_THRESHOLD
   \<and> wbtc_value_usd net_short_state > 0
   \<and> adjustment net_short_state = - 30
   \<and> execute_strategy default_settings net_short_price_fails_env = Raised"
proof -
  have a: "adjustment no_position_state = 25 / 4"
    by (simp add: adjustment_def no_position_state_def strategy_arith)
  have b: "\<bar>delta no_position_state\<bar> > DELTA_THRESHOLD"
    "wbtc_value_usd no_position_state > 0"
    by (simp_all add: no_position_state_def strategy_arith)
  have c: "should_open_position default_settings (funding_rate no_position_state)
             (has_position no_position_state)"
    by (simp add: should_open_position_def no_position_state_def strategy_arith)
  have d: "open_size default_settings no_position_state = 25 / 4"
    by (simp add: open_size_def no_position_state_def)
  have e: "market default_settings = ''BTC-USD''"
    "order_status no_position_env = ''success''"
    by (simp_all add: default_settings_def order_status_def no_position_env_def
          strategy_env_of_def)
  have f: "execute_strategy default_settings no_position_env
        = Returned ([OpenShortPosition ''BTC-USD'' (25 / 4)], OPEN_SHORT (25 / 4),
                    Some ''success'')"
    by (simp add: execute_strategy_def scenario_states execute_from_state_def
          outside_band_def a b c d e)
  have g: "adjustment net_short_state = - 30"
    by (simp add: adjustment_def net_short_state_def strategy_arith)
  have h: "\<bar>delta net_short_state\<bar> > DELTA_THRESHOLD"
    "wbtc_value_usd net_short_state > 0"
    by (simp_all add: net_short_state_def strategy_arith)
  have i: "rd_mark_price_again net_short_price_fails_env = Raised"
    by (simp add: net_short_price_fails_env_def)
  have j: "execute_strategy default_settings net_short_price_fails_env = Raised"
    by (simp add: execute_strategy_def scenario_states execute_from_state_def
          outside_band_def g h i)
  from a b f g h j scenario_states show ?thesis by simp
qed

text \<open>
  Claim C7 as amended.  For every strategy state that was read, with the difference
  taken as the float difference of the risk-asset value and the hedge notional and the
  delta as its float quotient by the total NAV: when the absolute delta exceeds the 5
  percent band, the risk-asset value is positive and the difference is above 10, the
  pass opens a short of the difference; when instead the difference is below -10 and
  the mark price read for sizing returns a non-zero price, the pass closes the magnitude
  of the difference, divided by that price, of the short; a pass ends in a rebalancing
  action only under these conditions.  In every other case the pass goes on to the
  funding steps, which are subject neither to the band nor to the floor: with no
  position and funding above the open threshold it opens a short of the risk-asset
  value (of 90 percent of the equity times the leverage when that value is not positive),
  else with a position and funding below the close threshold it closes the whole
  position, else it places no order.  In the scenario (risk-asset value 100, hedge
  notional 80, total NAV 180) the pass increases the short by 20.
\<close>

theorem C7_hedge_orders:
  assumes "get_state cfg env = Returned s"
  shows "(outside_band s \<and> 10 < adjustment s \<longrightarrow>
            execute_strategy cfg env
              = Returned ([OpenShortPosition (market cfg) (adjustment s)],
                          REBALANCE_SHORT_UP (adjustment s), Some (order_status env)))
     \<and> (outside_band s \<and> adjustment s < - 10
          \<and> rd_mark_price_again env = Returned p \<and> p \<noteq> 0 \<longrightarrow>
           execute_strategy cfg env
             = Returned ([ClosePosition (market cfg) (Some (fdiv \<bar>adjustment s\<bar> p))],
                         REBALANCE_SHORT_DOWN (adjustment s) (fdiv \<bar>adjustment s\<bar> p),
                         Some (order_status env)))
     \<and> (is_rebalance (execute_strategy cfg env) \<longrightarrow>
           outside_band s \<and> (10 < adjustment s \<or> adjustment s < - 10))
     \<and> (\<not> (outside_band s \<and> (10 < adjustment s \<or> adjustment s < - 10)) \<longrightarrow>
           execute_strategy cfg env
             = (if should_open_position cfg (funding_rate s) (has_position s)
                then Returned ([OpenShortPosition (market cfg) (open_size cfg s)],
                               OPEN_SHORT (open_size cfg s), Some (order_status env))
                else if should_close_position cfg (funding_rate s) (has_position s)
                then Returned ([ClosePosition (market cfg) None], CLOSE_POSITION,
                               Some (order_status env))
                else Returned ([], HOLD, None)))
     \<and> delta s = (if total_nav s > 0 then fdiv (adjustment s) (total_nav s) else 0)
     \<and> get_state default_settings scenario_strategy_env = Returned scenario_state
     \<and> execute_strategy default_settings scenario_strategy_env
         = Returned ([OpenShortPosition ''BTC-USD'' 20], REBALANCE_SHORT_UP 20,
                     Some ''success'')"
proof -
  have ex: "execute_strategy cfg env = execute_from_state cfg env s"
    using assms by (simp add: execute_strategy_def)
  have a: "execute_strategy cfg env
              = Returned ([OpenShortPosition (market cfg) (adjustment s)],
                          REBALANCE_SHORT_UP (adjustment s), Some (order_status env))"
    if "outside_band s" "10 < adjustment s"
    using that by (simp add: ex execute_from_state_def)
  have b: "execute_strategy cfg env
             = Returned ([ClosePosition (market cfg) (Some (fdiv \<bar>adjustment s\<bar> p))],
                         REBALANCE_SHORT_DOWN (adjustment s) (fdiv \<bar>adjustment s\<bar> p),
                         Some (order_status env))"
    if "outside_band s" "adjustment s < - 10" "rd_mark_price_again env = Returned p" "p \<noteq> 0"
    using that by (simp add: ex execute_from_state_def Let_def)
  have d: "execute_strategy cfg env
             = (if should_open_position cfg (funding_rate s) (has_position s)
                then Returned ([OpenShortPosition (market cfg) (open_size cfg s)],
                               OPEN_SHORT (open_size cfg s), Some (order_status env))
                else if should_close_position cfg (funding_rate s) (has_position s)
                then Returned ([ClosePosition (market cfg) None], CLOSE_POSITION,
                               Some (order_status env))
                else Returned ([], HOLD, None))"
    if "\<not> (outside_band s \<and> (10 < adjustment s \<or> adjustment s < - 10))"
    using that by (auto simp: ex execute_from_state_def)
  have c: "outside_band s \<and> (10 < adjustment s \<or> adjustment s < - 10)"
    if r: "is_rebalance (execute_strategy cfg env)"
  proof (rule ccontr)
    assume n: "\<not> (outside_band s \<and> (10 < adjustment s \<or> adjustment s < - 10))"
    from d [OF n] r show False by (simp split: if_splits)
  qed
  have e: "market default_settings = ''BTC-USD''"
    "order_status scenario_strategy_env = ''success''"
    by (simp_all add: default_settings_def order_status_def scenario_strategy_env_def
          strategy_env_of_def)
  have f: "adjustment scenario_state = 20" "outside_band scenario_state"
    by (simp_all add: adjustment_def outside_band_def scenario_state_def strategy_arith)
  have s: "execute_strategy default_settings scenario_strategy_env
         = Returned ([OpenShortPosition ''BTC-USD'' 20], REBALANCE_SHORT_UP 20,
                     Some ''success'')"
    by (simp add: execute_strategy_def scenario_states execute_from_state_def e f)
  from a b c d get_state_delta [OF assms] scenario_states(1) s show ?thesis by blast
qed

text \<open>
  C7 as amended, on the net-short variant (delta -0.15, difference -30, mark price
  102,400: 30 / 102400 of the short is closed) and on the variant without a position
  (the pass is outside the rebalancing conditions and opens a short of 6.25).
\<close>

theorem C7_hedge_orders_witness:
  "get_state default_settings net_short_env = Returned net_short_state
   \<and> outside_band net_short_state \<and> adjustment net_short_state = - 30
   \<and> rd_mark_price_again net_short_env = Returned 102400
   \<and> execute_strategy default_settings net_short_env
        = Returned ([ClosePosition ''BTC-USD'' (Some (fdiv 30 102400))],
                    REBALANCE_SHORT_DOWN (- 30) (fdiv 30 102400), Some ''success'')
   \<and> is_rebalance (execute_strategy default_settings net_short_env)
   \<and> get_state default_settings no_position_env = Returned no_position_state
   \<and> \<not> (outside_band no_position_state
          \<and> (10 < adjustment no_position_state \<or> adjustment no_position_state < - 10))
   \<and> \<not> is_rebalance (execute_strategy default_settings no_position_env)"
proof -
  have h: "outside_band net_short_state" "adjustment net_short_state = - 30"
    by (simp_all add: adjustment_def outside_band_def net_short_state_def strategy_arith)
  have p: "rd_mark_price_again net_short_env = Returned 102400" "(102400 :: real) \<noteq> 0"
    by (simp_all add: net_short_env_def strategy_env_of_def)
  have e: "market default_settings = ''BTC-USD''"
    "order_status net_short_env = ''success''"
    by (simp_all add: default_settings_def order_status_def net_short_env_def
          strategy_env_of_def)
  have n: "\<not> (outside_band no_position_state
          \<and> (10 < adjustment no_position_state \<or> adjustment no_position_state < - 10))"
    by (simp add: adjustment_def no_position_state_def strategy_arith)
  note i1 = C7_hedge_orders [OF scenario_states(2), where p = 102400]
  note i2 = C7_hedge_orders [OF scenario_states(3), where p = 102400]
  from i1 h p
  have "execute_strategy default_settings net_short_env
          = Returned ([ClosePosition (market default_settings)
                         (Some (fdiv \<bar>adjustment net_short_state\<bar> 102400))],
                      REBALANCE_SHORT_DOWN (adjustment net_short_state)
                         (fdiv \<bar>adjustment net_short_state\<bar> 102400),
                      Some (order_status net_short_env))"
    by simp
  then have c1: "execute_strategy default_settings net_short_env
        = Returned ([ClosePosition ''BTC-USD'' (Some (fdiv 30 102400))],
                    REBALANCE_SHORT_DOWN (- 30) (fdiv 30 102400), Some ''success'')"
    by (simp add: h e)
  then have c2: "is_rebalance (execute_strategy default_settings net_short_env)"
    by simp
  from i2 n have c3: "\<not> is_rebalance (execute_strategy default_settings no_position_env)"
    by blast
  from scenario_states h p c1 c2 n c3 show ?thesis by blast
qed

end
